theory Spec2Isabelle
  imports Main
begin

section \<open>The person service (packages/lib/services/person.ts)\<close>

text \<open>
  The service reads and writes person records through three collaborators: the
  relational store (the Prisma client), the attribute-class lookup, and the
  cache layer of the web framework (\<open>unstable_cache\<close>, \<open>revalidateTag\<close>).
  Every asynchronous function of the source becomes a function from the state
  of these collaborators (a \<open>world\<close>) to a result and the state afterwards.
  A thrown exception or a rejected promise is the left injection of the
  result; a normal return is the right injection.

  The service is taken to run inside a request of the web framework, where the
  framework's cache is at hand and \<open>revalidateTag\<close> does not throw.

  The per-request memoisation that React's \<open>cache\<close> wraps around \<open>getPerson\<close>
  and \<open>getPeople\<close> is not part of the model: the functions below are the
  wrapped bodies, that is, what a call computes when the request has not
  asked the same question before. \<open>getMonthlyActivePeopleCount\<close> is outside
  the scope of this development.
\<close>

subsection \<open>Errors\<close>

text \<open>
  The error classes the source throws or inspects. \<open>OtherError\<close> stands for an
  exception of any other class (its class name and its message).
\<close>

datatype js_error =
    ValidationError string
  | DatabaseError string
  | ResourceNotFoundError string string
  | PrismaClientKnownRequestError string
  | Error string
  | OtherError string string

text \<open>\<open>error instanceof Prisma.PrismaClientKnownRequestError\<close>\<close>

fun instanceof_PrismaClientKnownRequestError :: "js_error \<Rightarrow> bool" where
  "instanceof_PrismaClientKnownRequestError (PrismaClientKnownRequestError m) = True"
| "instanceof_PrismaClientKnownRequestError e = False"

subsection \<open>Data\<close>

text \<open>
  \<open>TransformPersonInput\<close>: the shape the store returns under \<open>selectPerson\<close>.
  An element of \<open>attributes\<close> is \<open>{value, attributeClass: {name}}\<close>; the one-field
  object \<open>attributeClass\<close> is flattened into the field \<open>pa_attributeClass_name\<close>.
\<close>

record PrismaAttribute =
  pa_value :: string
  pa_attributeClass_name :: string

record TransformPersonInput =
  tpi_id :: string
  tpi_attributes :: "PrismaAttribute list"
  tpi_createdAt :: nat
  tpi_updatedAt :: nat

text \<open>
  A time stamp of a person is a \<open>Date\<close> object when it comes from the store and
  the ISO string of that date once the person has been through JSON (the
  number is the time value in both cases).
\<close>

datatype js_date = Date nat | DateString nat

text \<open>
  \<open>TPerson\<close>. The object \<open>attributes: Record<string, string | number>\<close> is the
  finite map of its own properties, from property names to values; the values
  the service stores are the strings of the attribute rows.
\<close>

record TPerson =
  tp_id :: string
  tp_attributes :: "string \<rightharpoonup> string"
  tp_createdAt :: js_date
  tp_updatedAt :: js_date

text \<open>The tables of the store that the service touches.\<close>

record Person_row =
  person_id :: string
  person_environmentId :: string
  person_createdAt :: nat
  person_updatedAt :: nat

record Attribute_row =
  attribute_attributeClassId :: string
  attribute_personId :: string
  attribute_value :: string

record AttributeClass_row =
  attributeClass_id :: string
  attributeClass_name :: string
  attributeClass_environmentId :: string
  attributeClass_archived :: bool

text \<open>
  An entry of the framework's data cache, holding a result of \<open>getPerson\<close>: its
  key, its tags, the time it was written, and what parsing its JSON body gives.
\<close>

record cache_entry =
  ce_key :: "string list"
  ce_tags :: "string list"
  ce_lastModified :: nat
  ce_value :: "TPerson option"

record cache_options =
  tags :: "string list"
  revalidate :: nat

text \<open>The calls the service makes to the store and to the attribute-class lookup.\<close>

datatype call =
    PersonFindUnique string
  | PersonFindMany string
  | PersonFindFirst string string string
  | PersonCreate string "(string \<times> string) list"
  | PersonDelete string
  | AttributeUpsert string string string
  | GetAttributeClassByName string string

text \<open>
  The state of the collaborators.
  \<^item> The four tables, in storage order.
  \<^item> \<open>cuid\<close> and \<open>cuid_counter\<close>: the store's identifier generator and how many
    identifiers it has handed out.
  \<^item> \<open>now\<close>: the clock, in seconds.
  \<^item> \<open>faults\<close>: what the store does at its next calls, one entry per call:
    \<open>Some e\<close> makes the call throw \<open>e\<close>, \<open>None\<close> (or an exhausted list) lets it
    run. This is how a connection failure or any other exception of the client
    enters the model.
  \<^item> \<open>calls\<close>: the log of calls made to the store and the attribute-class lookup.
  \<^item> \<open>cache_entries\<close>: the data cache; \<open>revalidated\<close>: the log of \<open>revalidateTag\<close>.
\<close>

record world =
  person_table :: "Person_row list"
  attribute_table :: "Attribute_row list"
  attributeClass_table :: "AttributeClass_row list"
  environment_table :: "string list"
  cuid :: "nat \<Rightarrow> string"
  cuid_counter :: nat
  now :: nat
  faults :: "js_error option list"
  calls :: "call list"
  cache_entries :: "cache_entry list"
  revalidated :: "string list"

subsection \<open>The store\<close>

text \<open>
  The Prisma client is not part of the repository; the operations the service
  uses are modelled on the tables. Every call is logged and consumes one entry
  of the fault script. Where the store itself refuses an operation (a record to
  connect or to delete that does not exist, an identifier already taken) it
  raises a \<open>PrismaClientKnownRequestError\<close>; the messages given to these errors
  here are stand-ins.
\<close>

definition store_call :: "call \<Rightarrow> world \<Rightarrow> js_error option \<times> world" where
  "store_call c w =
     (case faults w of
        [] \<Rightarrow> (None, w\<lparr>calls := calls w @ [c]\<rparr>)
      | f # fs \<Rightarrow> (f, w\<lparr>calls := calls w @ [c], faults := fs\<rparr>))"

definition find_attributeClass :: "world \<Rightarrow> string \<Rightarrow> AttributeClass_row option" where
  "find_attributeClass w i = find (\<lambda>c. attributeClass_id c = i) (attributeClass_table w)"

text \<open>
  \<open>selectPerson\<close>: the person's \<open>id\<close>, \<open>createdAt\<close>, \<open>updatedAt\<close>, and of its
  attributes those \<open>where: {attributeClass: {archived: false}}\<close>, each as
  \<open>{value, attributeClass: {name}}\<close>.
\<close>

definition selectPerson :: "world \<Rightarrow> Person_row \<Rightarrow> TransformPersonInput" where
  "selectPerson w p =
     \<lparr>tpi_id = person_id p,
      tpi_attributes =
        List.map_filter
          (\<lambda>a. if attribute_personId a = person_id p
                then (case find_attributeClass w (attribute_attributeClassId a) of
                        None \<Rightarrow> None
                      | Some c \<Rightarrow>
                          if attributeClass_archived c then None
                          else Some \<lparr>pa_value = attribute_value a,
                                     pa_attributeClass_name = attributeClass_name c\<rparr>)
                else None)
          (attribute_table w),
      tpi_createdAt = person_createdAt p,
      tpi_updatedAt = person_updatedAt p\<rparr>"

text \<open>\<open>prisma.person.findUnique({where: {id}, select: selectPerson})\<close>\<close>

definition prisma_person_findUnique ::
  "string \<Rightarrow> world \<Rightarrow> (js_error + TransformPersonInput option) \<times> world" where
  "prisma_person_findUnique i w =
     (case store_call (PersonFindUnique i) w of
        (Some e, w') \<Rightarrow> (Inl e, w')
      | (None, w') \<Rightarrow>
          (Inr (map_option (selectPerson w') (find (\<lambda>p. person_id p = i) (person_table w'))), w'))"

text \<open>
  \<open>prisma.person.findMany({where: {environmentId}, select: selectPerson})\<close>.
  The source tests the answer for null, so the answer is an option; the store
  always answers with a list.
\<close>

definition prisma_person_findMany ::
  "string \<Rightarrow> world \<Rightarrow> (js_error + TransformPersonInput list option) \<times> world" where
  "prisma_person_findMany environmentId w =
     (case store_call (PersonFindMany environmentId) w of
        (Some e, w') \<Rightarrow> (Inl e, w')
      | (None, w') \<Rightarrow>
          (Inr (Some (map (selectPerson w')
                  (filter (\<lambda>p. person_environmentId p = environmentId) (person_table w')))), w'))"

text \<open>
  \<open>prisma.person.findFirst\<close> with \<open>where: {environmentId, attributes: {some:
  {attributeClass: {name}, value}}}\<close>: the first person of the environment, in
  storage order, with an attribute of that value on a class of that name.
\<close>

definition has_attribute :: "world \<Rightarrow> string \<Rightarrow> string \<Rightarrow> Person_row \<Rightarrow> bool" where
  "has_attribute w className v p =
     list_ex
       (\<lambda>a. attribute_personId a = person_id p \<and> attribute_value a = v \<and>
            (case find_attributeClass w (attribute_attributeClassId a) of
               None \<Rightarrow> False
             | Some c \<Rightarrow> attributeClass_name c = className))
       (attribute_table w)"

definition prisma_person_findFirst ::
  "string \<Rightarrow> string \<Rightarrow> string \<Rightarrow> world \<Rightarrow> (js_error + TransformPersonInput option) \<times> world" where
  "prisma_person_findFirst environmentId className v w =
     (case store_call (PersonFindFirst environmentId className v) w of
        (Some e, w') \<Rightarrow> (Inl e, w')
      | (None, w') \<Rightarrow>
          (Inr (map_option (selectPerson w')
                  (find (\<lambda>p. person_environmentId p = environmentId \<and> has_attribute w' className v p)
                     (person_table w'))), w'))"

text \<open>
  \<open>prisma.person.create\<close> with \<open>environment: {connect: {id}}\<close> and the nested
  \<open>attributes: {create: [...]}\<close> (a list of attribute class id and value, empty
  for a bare person). Connecting to a record that does not exist and a
  generated identifier that is already taken are failures the client reports
  as \<open>PrismaClientKnownRequestError\<close>.
\<close>

definition prisma_person_create ::
  "string \<Rightarrow> (string \<times> string) list \<Rightarrow> world \<Rightarrow> (js_error + TransformPersonInput) \<times> world" where
  "prisma_person_create environmentId attrs w =
     (case store_call (PersonCreate environmentId attrs) w of
        (Some e, w') \<Rightarrow> (Inl e, w')
      | (None, w') \<Rightarrow>
          (let newId = cuid w' (cuid_counter w') in
           if environmentId \<notin> set (environment_table w') \<or>
              list_ex (\<lambda>(c, v). find_attributeClass w' c = None) attrs
           then (Inl (PrismaClientKnownRequestError ''Required record not found''), w')
           else if newId \<in> set (map person_id (person_table w'))
           then (Inl (PrismaClientKnownRequestError ''Unique constraint failed''),
                 w'\<lparr>cuid_counter := Suc (cuid_counter w')\<rparr>)
           else
             (let p = \<lparr>person_id = newId, person_environmentId = environmentId,
                       person_createdAt = now w', person_updatedAt = now w'\<rparr>;
                  w'' = w'\<lparr>person_table := person_table w' @ [p],
                           attribute_table := attribute_table w' @
                             map (\<lambda>(c, v). \<lparr>attribute_attributeClassId = c,
                                            attribute_personId = newId,
                                            attribute_value = v\<rparr>) attrs,
                           cuid_counter := Suc (cuid_counter w')\<rparr>
              in (Inr (selectPerson w'' p), w''))))"

text \<open>
  \<open>prisma.person.delete({where: {id}})\<close>: removes the person and, by cascade, its
  attribute rows; a missing record is a \<open>PrismaClientKnownRequestError\<close>.
\<close>

definition prisma_person_delete :: "string \<Rightarrow> world \<Rightarrow> (js_error + unit) \<times> world" where
  "prisma_person_delete i w =
     (case store_call (PersonDelete i) w of
        (Some e, w') \<Rightarrow> (Inl e, w')
      | (None, w') \<Rightarrow>
          if list_ex (\<lambda>p. person_id p = i) (person_table w')
          then (Inr (),
                w'\<lparr>person_table := filter (\<lambda>p. person_id p \<noteq> i) (person_table w'),
                   attribute_table := filter (\<lambda>a. attribute_personId a \<noteq> i) (attribute_table w')\<rparr>)
          else (Inl (PrismaClientKnownRequestError ''Record to delete does not exist''), w'))"

text \<open>
  \<open>prisma.attribute.upsert\<close> keyed by \<open>attributeClassId_personId\<close>: overwrite the
  value of the row with that key, or create the row, connecting it to the
  person and the attribute class (which must exist).
\<close>

definition attribute_key :: "string \<Rightarrow> string \<Rightarrow> Attribute_row \<Rightarrow> bool" where
  "attribute_key attributeClassId personId a =
     (attribute_attributeClassId a = attributeClassId \<and> attribute_personId a = personId)"

definition prisma_attribute_upsert ::
  "string \<Rightarrow> string \<Rightarrow> string \<Rightarrow> world \<Rightarrow> (js_error + unit) \<times> world" where
  "prisma_attribute_upsert attributeClassId personId v w =
     (case store_call (AttributeUpsert attributeClassId personId v) w of
        (Some e, w') \<Rightarrow> (Inl e, w')
      | (None, w') \<Rightarrow>
          if list_ex (attribute_key attributeClassId personId) (attribute_table w')
          then (Inr (),
                w'\<lparr>attribute_table :=
                     map (\<lambda>a. if attribute_key attributeClassId personId a
                              then a\<lparr>attribute_value := v\<rparr> else a) (attribute_table w')\<rparr>)
          else if list_ex (\<lambda>p. person_id p = personId) (person_table w') \<and>
                  find_attributeClass w' attributeClassId \<noteq> None
          then (Inr (),
                w'\<lparr>attribute_table := attribute_table w' @
                     [\<lparr>attribute_attributeClassId = attributeClassId,
                       attribute_personId = personId,
                       attribute_value = v\<rparr>]\<rparr>)
          else (Inl (PrismaClientKnownRequestError ''Required record not found''), w'))"

subsection \<open>The attribute-class lookup and the input validation\<close>

text \<open>
  Modelled from the spec: \<open>getAttributeClassByName\<close> of \<open>./attributeClass\<close>, which
  is not among the sources. The contract: resolve (environmentId, name) to the
  attribute-class record or absent. It reads the store, so it is a logged call
  that can fail.
\<close>

definition getAttributeClassByName ::
  "string \<Rightarrow> string \<Rightarrow> world \<Rightarrow> (js_error + AttributeClass_row option) \<times> world" where
  "getAttributeClassByName environmentId n w =
     (case store_call (GetAttributeClassByName environmentId n) w of
        (Some e, w') \<Rightarrow> (Inl e, w')
      | (None, w') \<Rightarrow>
          (Inr (find (\<lambda>c. attributeClass_environmentId c = environmentId \<and> attributeClass_name c = n)
                  (attributeClass_table w')), w'))"

text \<open>
  Modelled from the spec: \<open>validateInputs\<close> of \<open>../utils/validate\<close>, which is not
  among the sources. Each pair is a value and the format check it must pass;
  the first value that fails its check raises a validation error. The
  identifier format \<open>ZId\<close> is not among the sources either: the functions that
  validate take it as a parameter.
\<close>

fun validateInputs :: "(string \<times> (string \<Rightarrow> bool)) list \<Rightarrow> js_error + unit" where
  "validateInputs [] = Inr ()"
| "validateInputs ((v, schema) # pairs) =
     (if schema v then validateInputs pairs else Inl (ValidationError ''Validation failed''))"

subsection \<open>The cache layer\<close>

text \<open>
  The cache of the web framework (\<open>next/cache\<close>) is not part of the repository;
  its two functions are modelled as they behave inside a request.

  \<open>revalidateTag(tag)\<close>: every entry carrying the tag is dead from now on, so the
  next cached call under that tag finds no entry and recomputes. The entries
  are dropped here, and the call is logged.
\<close>

definition revalidateTag :: "string \<Rightarrow> world \<Rightarrow> world" where
  "revalidateTag tag w =
     w\<lparr>cache_entries := filter (\<lambda>e. tag \<notin> set (ce_tags e)) (cache_entries w),
       revalidated := revalidated w @ [tag]\<rparr>"

text \<open>
  What a result becomes when it is written to the cache as JSON and parsed
  again: \<open>null\<close> stays \<open>null\<close>, strings stay strings, and a \<open>Date\<close> becomes its ISO
  string.
\<close>

fun date_toJSON :: "js_date \<Rightarrow> js_date" where
  "date_toJSON (Date t) = DateString t"
| "date_toJSON (DateString t) = DateString t"

definition json_round_trip :: "TPerson option \<Rightarrow> TPerson option" where
  "json_round_trip result =
     map_option
       (\<lambda>p. p\<lparr>tp_createdAt := date_toJSON (tp_createdAt p),
               tp_updatedAt := date_toJSON (tp_updatedAt p)\<rparr>)
       result"

text \<open>
  \<open>unstable_cache(cb, keyParts, {tags, revalidate})()\<close>. The cache key is made of
  the text of \<open>cb\<close>, which is the same at every call of \<open>getPersonCached\<close>, and of
  \<open>keyParts\<close>.
  \<^item> \<open>cache_get\<close>: the entry under the key, if there is one.
  \<^item> \<open>isStale\<close>: the entry is older than \<open>revalidate\<close> seconds; at exactly
    \<open>revalidate\<close> seconds it is still fresh.
  \<^item> \<open>invokeCallback\<close>: \<open>cb\<close> runs; an exception is thrown on and nothing is
    written; a result is returned as it is and its JSON is written under the key
    with the tags, replacing the entry under the key.
  \<^item> With no entry, the call is \<open>invokeCallback\<close>. With a fresh entry, the parsed
    body of the entry is returned and \<open>cb\<close> does not run. With a stale entry, the
    parsed body of the entry is returned all the same, and \<open>invokeCallback\<close> is
    started in the background: the caller does not wait for it, and an
    exception of it is logged and dropped. The background run is taken to
    complete at once.
\<close>

definition cache_get :: "world \<Rightarrow> string list \<Rightarrow> cache_entry option" where
  "cache_get w keyParts = find (\<lambda>e. ce_key e = keyParts) (cache_entries w)"

definition isStale :: "world \<Rightarrow> cache_options \<Rightarrow> cache_entry \<Rightarrow> bool" where
  "isStale w options e = (ce_lastModified e + revalidate options < now w)"

definition invokeCallback ::
  "(world \<Rightarrow> (js_error + TPerson option) \<times> world) \<Rightarrow> string list \<Rightarrow> cache_options \<Rightarrow>
   world \<Rightarrow> (js_error + TPerson option) \<times> world" where
  "invokeCallback cb keyParts options w =
     (case cb w of
        (Inl error, w') \<Rightarrow> (Inl error, w')
      | (Inr result, w') \<Rightarrow>
          (Inr result,
           w'\<lparr>cache_entries :=
                \<lparr>ce_key = keyParts, ce_tags = tags options,
                 ce_lastModified = now w', ce_value = json_round_trip result\<rparr>
                # filter (\<lambda>e. ce_key e \<noteq> keyParts) (cache_entries w')\<rparr>))"

definition unstable_cache ::
  "(world \<Rightarrow> (js_error + TPerson option) \<times> world) \<Rightarrow> string list \<Rightarrow> cache_options \<Rightarrow>
   world \<Rightarrow> (js_error + TPerson option) \<times> world" where
  "unstable_cache cb keyParts options w =
     (case cache_get w keyParts of
        None \<Rightarrow> invokeCallback cb keyParts options w
      | Some cacheEntry \<Rightarrow>
          if isStale w options cacheEntry
          then (Inr (ce_value cacheEntry), snd (invokeCallback cb keyParts options w))
          else (Inr (ce_value cacheEntry), w))"

subsection \<open>The service\<close>

text \<open>
  \<open>try { body } catch (error) { throw handler(error) }\<close>: every catch block of
  the source ends in a throw, so a handler maps the error caught to the error
  thrown.
\<close>

definition try_catch ::
  "(js_error + 'a) \<times> world \<Rightarrow> (js_error \<Rightarrow> js_error) \<Rightarrow> (js_error + 'a) \<times> world" where
  "try_catch body handler =
     (case body of
        (Inl error, w') \<Rightarrow> (Inl (handler error), w')
      | (Inr v, w') \<Rightarrow> (Inr v, w'))"

text \<open>
  The assignment \<open>acc[name] = value\<close> on an object that began as \<open>{}\<close>, with a
  string as the value. It adds or overwrites the own property \<open>name\<close>, except
  for the name \<open>__proto__\<close>: that assignment goes to the setter inherited from
  \<open>Object.prototype\<close>, which ignores a value that is neither an object nor null,
  so nothing is stored.
\<close>

definition assign_property ::
  "(string \<rightharpoonup> string) \<Rightarrow> string \<Rightarrow> string \<Rightarrow> (string \<rightharpoonup> string)" where
  "assign_property acc name v = (if name = ''__proto__'' then acc else acc(name \<mapsto> v))"

definition transformPrismaPerson :: "TransformPersonInput \<Rightarrow> TPerson" where
  "transformPrismaPerson person =
     (let attributes =
            foldl (\<lambda>acc attr. assign_property acc (pa_attributeClass_name attr) (pa_value attr))
              Map.empty (tpi_attributes person)
      in \<lparr>tp_id = tpi_id person,
          tp_attributes = attributes,
          tp_createdAt = Date (tpi_createdAt person),
          tp_updatedAt = Date (tpi_updatedAt person)\<rparr>)"

definition getPerson ::
  "(string \<Rightarrow> bool) \<Rightarrow> string \<Rightarrow> world \<Rightarrow> (js_error + TPerson option) \<times> world" where
  "getPerson ZId personId w =
     (case validateInputs [(personId, ZId)] of
        Inl invalid \<Rightarrow> (Inl invalid, w)
      | Inr _ \<Rightarrow>
          try_catch
            (case prisma_person_findUnique personId w of
               (Inl error, w') \<Rightarrow> (Inl error, w')
             | (Inr personPrisma, w') \<Rightarrow>
                 (case personPrisma of
                    None \<Rightarrow> (Inr None, w')
                  | Some found \<Rightarrow> (Inr (Some (transformPrismaPerson found)), w')))
            (\<lambda>error. if instanceof_PrismaClientKnownRequestError error
                      then DatabaseError ''Database operation failed''
                      else error))"

definition getPersonCacheKey :: "string \<Rightarrow> string list" where
  "getPersonCacheKey personId = [personId]"

definition getPersonCached ::
  "(string \<Rightarrow> bool) \<Rightarrow> string \<Rightarrow> world \<Rightarrow> (js_error + TPerson option) \<times> world" where
  "getPersonCached ZId personId w =
     unstable_cache (getPerson ZId personId) (getPersonCacheKey personId)
       \<lparr>tags = getPersonCacheKey personId, revalidate = 30 * 60\<rparr> w"

text \<open>
  In \<open>getPeople\<close> the source maps \<open>transformPrismaPerson\<close> over the answer and
  then filters out null; the nullable elements are options here.
\<close>

definition getPeople ::
  "(string \<Rightarrow> bool) \<Rightarrow> string \<Rightarrow> world \<Rightarrow> (js_error + TPerson list) \<times> world" where
  "getPeople ZId environmentId w =
     (case validateInputs [(environmentId, ZId)] of
        Inl invalid \<Rightarrow> (Inl invalid, w)
      | Inr _ \<Rightarrow>
          try_catch
            (case prisma_person_findMany environmentId w of
               (Inl error, w') \<Rightarrow> (Inl error, w')
             | (Inr personsPrisma, w') \<Rightarrow>
                 (case personsPrisma of
                    None \<Rightarrow> (Inl (ResourceNotFoundError ''Persons'' ''All Persons''), w')
                  | Some found \<Rightarrow>
                      (Inr (map the
                              (filter (\<lambda>person. person \<noteq> None)
                                 (map (\<lambda>p. Some (transformPrismaPerson p)) found))), w')))
            (\<lambda>error. if instanceof_PrismaClientKnownRequestError error
                      then DatabaseError ''Database operation failed''
                      else error))"

text \<open>
  In \<open>createPerson\<close> the test \<open>if (person)\<close> is on an object, which is always
  truthy, so the tag is always revalidated after the store has answered.
\<close>

definition createPerson ::
  "(string \<Rightarrow> bool) \<Rightarrow> string \<Rightarrow> world \<Rightarrow> (js_error + TPerson) \<times> world" where
  "createPerson ZId environmentId w =
     (case validateInputs [(environmentId, ZId)] of
        Inl invalid \<Rightarrow> (Inl invalid, w)
      | Inr _ \<Rightarrow>
          try_catch
            (case prisma_person_create environmentId [] w of
               (Inl error, w') \<Rightarrow> (Inl error, w')
             | (Inr personPrisma, w') \<Rightarrow>
                 (let person = transformPrismaPerson personPrisma
                  in (Inr person, revalidateTag (tp_id person) w')))
            (\<lambda>error. case error of
                        PrismaClientKnownRequestError m \<Rightarrow> DatabaseError m
                      | _ \<Rightarrow> error))"

definition deletePerson ::
  "(string \<Rightarrow> bool) \<Rightarrow> string \<Rightarrow> world \<Rightarrow> (js_error + unit) \<times> world" where
  "deletePerson ZId personId w =
     (case validateInputs [(personId, ZId)] of
        Inl invalid \<Rightarrow> (Inl invalid, w)
      | Inr _ \<Rightarrow>
          try_catch
            (case prisma_person_delete personId w of
               (Inl error, w') \<Rightarrow> (Inl error, w')
             | (Inr _, w') \<Rightarrow> (Inr (), revalidateTag personId w'))
            (\<lambda>error. if instanceof_PrismaClientKnownRequestError error
                      then DatabaseError ''Database operation failed''
                      else error))"

definition getOrCreatePersonByUserId ::
  "string \<Rightarrow> string \<Rightarrow> world \<Rightarrow> (js_error + TPerson) \<times> world" where
  "getOrCreatePersonByUserId userId environmentId w =
     (case prisma_person_findFirst environmentId ''userId'' userId w of
        (Inl error, w1) \<Rightarrow> (Inl error, w1)
      | (Inr (Some personPrisma), w1) \<Rightarrow> (Inr (transformPrismaPerson personPrisma), w1)
      | (Inr None, w1) \<Rightarrow>
          (case getAttributeClassByName environmentId ''userId'' w1 of
             (Inl error, w2) \<Rightarrow> (Inl error, w2)
           | (Inr None, w2) \<Rightarrow>
               (Inl (Error ''Attribute class not found for the given environmentId''), w2)
           | (Inr (Some userIdAttributeClass), w2) \<Rightarrow>
               (case prisma_person_create environmentId
                       [(attributeClass_id userIdAttributeClass, userId)] w2 of
                  (Inl error, w3) \<Rightarrow> (Inl error, w3)
                | (Inr personPrisma, w3) \<Rightarrow>
                    (Inr (transformPrismaPerson personPrisma),
                     revalidateTag (tpi_id personPrisma) w3))))"

definition updatePersonAttribute ::
  "string \<Rightarrow> string \<Rightarrow> string \<Rightarrow> world \<Rightarrow> (js_error + unit) \<times> world" where
  "updatePersonAttribute personId attributeClassId v w =
     (case prisma_attribute_upsert attributeClassId personId v w of
        (Inl error, w') \<Rightarrow> (Inl error, w')
      | (Inr _, w') \<Rightarrow> (Inr (), revalidateTag personId w'))"


section \<open>Hypotheses about the store\<close>

text \<open>
  Two constraints on the attribute table, used as hypotheses. The first is the
  unique key \<open>attributeClassId_personId\<close> that the upsert addresses. The second
  says that no other row of the person lies on a class that is not archived and
  bears the name \<open>n\<close>: the attributes mapping is keyed by class name, so two such
  rows would compete for one entry.
\<close>

definition one_row_per_key :: "world \<Rightarrow> string \<Rightarrow> string \<Rightarrow> bool" where
  "one_row_per_key w attributeClassId personId =
     (length (filter (attribute_key attributeClassId personId) (attribute_table w)) \<le> 1)"

definition no_namesake_on_person :: "world \<Rightarrow> string \<Rightarrow> string \<Rightarrow> string \<Rightarrow> bool" where
  "no_namesake_on_person w attributeClassId personId n =
     list_all
       (\<lambda>row. attribute_personId row = personId \<and>
              attribute_attributeClassId row \<noteq> attributeClassId \<longrightarrow>
                (case find_attributeClass w (attribute_attributeClassId row) of
                   None \<Rightarrow> True
                 | Some c \<Rightarrow> attributeClass_archived c \<or> attributeClass_name c \<noteq> n))
       (attribute_table w)"

text \<open>
  \<open>store_answers n w\<close>: none of the next \<open>n\<close> calls to the store is interrupted by
  a fault. \<open>answered c w\<close> is the world after a call \<open>c\<close> that was not
  interrupted: the call is logged and its entry of the fault script is used up.
\<close>

definition store_answers :: "nat \<Rightarrow> world \<Rightarrow> bool" where
  "store_answers n w = list_all (\<lambda>f. f = None) (take n (faults w))"

definition answered :: "call \<Rightarrow> world \<Rightarrow> world" where
  "answered c w = w\<lparr>calls := calls w @ [c], faults := tl (faults w)\<rparr>"

section \<open>Example worlds\<close>

text \<open>
  The concrete inputs of the witnesses and counterexamples. \<open>example_ZId\<close>
  accepts the non-empty strings of lower-case letters and digits. In
  \<open>example_world\<close> the environment \<open>e1\<close> holds the person \<open>p1\<close> and three
  attribute classes, of which \<open>plan\<close> is archived; \<open>p1\<close> has a value on \<open>userId\<close>
  and on \<open>plan\<close>; the environment \<open>e2\<close> is empty; the store generates the
  identifiers \<open>c\<close>, \<open>cx\<close>, \<open>cxx\<close>, ...
\<close>

definition example_ZId :: "string \<Rightarrow> bool" where
  "example_ZId s = (s \<noteq> [] \<and> list_all (\<lambda>c. c \<in> set ''0123456789abcdefghijklmnopqrstuvwxyz'') s)"

definition example_world :: world where
  "example_world =
     \<lparr>person_table =
        [\<lparr>person_id = ''p1'', person_environmentId = ''e1'',
          person_createdAt = 5, person_updatedAt = 5\<rparr>],
      attribute_table =
        [\<lparr>attribute_attributeClassId = ''ac1'', attribute_personId = ''p1'', attribute_value = ''abc''\<rparr>,
         \<lparr>attribute_attributeClassId = ''ac2'', attribute_personId = ''p1'', attribute_value = ''gold''\<rparr>],
      attributeClass_table =
        [\<lparr>attributeClass_id = ''ac1'', attributeClass_name = ''userId'',
          attributeClass_environmentId = ''e1'', attributeClass_archived = False\<rparr>,
         \<lparr>attributeClass_id = ''ac2'', attributeClass_name = ''plan'',
          attributeClass_environmentId = ''e1'', attributeClass_archived = True\<rparr>,
         \<lparr>attributeClass_id = ''ac3'', attributeClass_name = ''email'',
          attributeClass_environmentId = ''e1'', attributeClass_archived = False\<rparr>],
      environment_table = [''e1'', ''e2''],
      cuid = (\<lambda>n. ''c'' @ replicate n CHR ''x''),
      cuid_counter = 0,
      now = 10,
      faults = [],
      calls = [],
      cache_entries = [],
      revalidated = []\<rparr>"

text \<open>The same world with a store whose next call fails, or with a given fault script.\<close>

definition example_world_store_down :: world where
  "example_world_store_down =
     example_world\<lparr>faults := [Some (PrismaClientKnownRequestError ''Timed out'')]\<rparr>"


definition example_world_with_faults :: "js_error option list \<Rightarrow> world" where
  "example_world_with_faults fs = example_world\<lparr>faults := fs\<rparr>"

text \<open>
  The world after a first \<open>getPersonCached\<close> for \<open>p1\<close>, which memoizes the person
  (as JSON, so with its dates as strings); then the same with a store whose
  next call fails.
\<close>

definition example_world_cached :: world where
  "example_world_cached = snd (getPersonCached example_ZId ''p1'' example_world)"

definition example_world_cached_store_down :: world where
  "example_world_cached_store_down =
     example_world_cached\<lparr>faults := [Some (PrismaClientKnownRequestError ''Timed out'')]\<rparr>"



text \<open>The world after two updates of \<open>p1\<close> on the archived class \<open>ac2\<close>.\<close>

definition example_world_updated_twice :: world where
  "example_world_updated_twice =
     snd (updatePersonAttribute ''p1'' ''ac2'' ''platinum''
            (snd (updatePersonAttribute ''p1'' ''ac2'' ''silver'' example_world)))"

section \<open>The shape transformation\<close>

lemma foldl_assign_last:
  "foldl (\<lambda>acc attr. assign_property acc (pa_attributeClass_name attr) (pa_value attr)) m attrs n =
     (if n = ''__proto__'' then m n
      else case find (\<lambda>a. pa_attributeClass_name a = n) (rev attrs) of
             None \<Rightarrow> m n
           | Some a \<Rightarrow> Some (pa_value a))"
proof (induction attrs rule: rev_induct)
  case Nil
  show ?case by simp
next
  case (snoc a attrs)
  show ?case
  proof (cases "n = ''__proto__''")
    case True
    then show ?thesis using snoc.IH by (simp add: assign_property_def)
  next
    case False
    then show ?thesis using snoc.IH
      by (cases "pa_attributeClass_name a = n") (simp_all add: assign_property_def)
  qed
qed

text \<open>
  Under every name but \<open>__proto__\<close> the mapping holds the value of the last
  entry of the sequence with that name, and nothing if the name does not occur;
  under \<open>__proto__\<close> it holds nothing.
\<close>

lemma transformPrismaPerson_attributes:
  "tp_attributes (transformPrismaPerson person) n =
     (if n = ''__proto__'' then None
      else map_option pa_value
             (find (\<lambda>a. pa_attributeClass_name a = n) (rev (tpi_attributes person))))"
  by (simp add: transformPrismaPerson_def foldl_assign_last split: option.splits)

lemma transformPrismaPerson_id [simp]:
  "tp_id (transformPrismaPerson person) = tpi_id person"
  by (simp add: transformPrismaPerson_def)

text \<open>
  C3. The claim is that for every raw record the mapping is built by setting
  \<open>map[name] = value\<close> for each pair in sequence order, so that the value of the
  later entry is present. The code makes these assignments on an object that
  began as \<open>{}\<close>, and there the assignment under the name \<open>__proto__\<close> stores
  nothing. For the record whose only attribute has the value \<open>x\<close> on a class
  named \<open>__proto__\<close> the mapping returned has no entry at all, where the claim
  has the entry \<open>__proto__\<close> with the value \<open>x\<close>.
\<close>

theorem transformPrismaPerson_drops_proto_name:
  "tp_attributes
     (transformPrismaPerson
        \<lparr>tpi_id = ''p1'',
         tpi_attributes = [\<lparr>pa_value = ''x'', pa_attributeClass_name = ''__proto__''\<rparr>],
         tpi_createdAt = 5, tpi_updatedAt = 5\<rparr>) ''__proto__'' = None \<and>
   dom (tp_attributes
     (transformPrismaPerson
        \<lparr>tpi_id = ''p1'',
         tpi_attributes = [\<lparr>pa_value = ''x'', pa_attributeClass_name = ''__proto__''\<rparr>],
         tpi_createdAt = 5, tpi_updatedAt = 5\<rparr>)) = {}"
  by (simp add: transformPrismaPerson_def assign_property_def)

section \<open>Facts about the store\<close>

lemma store_call_answers:
  "store_answers (Suc n) w \<Longrightarrow> store_call c w = (None, answered c w)"
  by (cases "faults w") (simp_all add: store_answers_def store_call_def answered_def)

lemma store_answers_answered:
  "store_answers (Suc n) w \<Longrightarrow> store_answers n (answered c w)"
  by (cases "faults w") (simp_all add: store_answers_def answered_def)

lemma answered_fields [simp]:
  "person_table (answered c w) = person_table w"
  "attribute_table (answered c w) = attribute_table w"
  "attributeClass_table (answered c w) = attributeClass_table w"
  "environment_table (answered c w) = environment_table w"
  "cuid (answered c w) = cuid w"
  "cuid_counter (answered c w) = cuid_counter w"
  "now (answered c w) = now w"
  "cache_entries (answered c w) = cache_entries w"
  "revalidated (answered c w) = revalidated w"
  "calls (answered c w) = calls w @ [c]"
  by (simp_all add: answered_def)

lemma store_call_frame:
  "store_call c w = (r, w') \<Longrightarrow>
     person_table w' = person_table w \<and> attribute_table w' = attribute_table w \<and>
     attributeClass_table w' = attributeClass_table w \<and>
     environment_table w' = environment_table w \<and>
     cache_entries w' = cache_entries w \<and> revalidated w' = revalidated w \<and>
     now w' = now w \<and> calls w' = calls w @ [c]"
  by (auto simp: store_call_def split: list.splits)

lemma prisma_person_delete_cache:
  "cache_entries (snd (prisma_person_delete personId w)) = cache_entries w \<and>
   revalidated (snd (prisma_person_delete personId w)) = revalidated w"
  by (auto simp: prisma_person_delete_def split: prod.splits option.splits if_splits
      dest: store_call_frame)

lemma prisma_attribute_upsert_cache:
  "cache_entries (snd (prisma_attribute_upsert attributeClassId personId v w)) = cache_entries w \<and>
   revalidated (snd (prisma_attribute_upsert attributeClassId personId v w)) = revalidated w"
  by (auto simp: prisma_attribute_upsert_def split: prod.splits option.splits if_splits
      dest: store_call_frame)

section \<open>Facts about the example worlds\<close>

lemma example_ZId_ids:
  "example_ZId ''p1''" "example_ZId ''p2''" "example_ZId ''e1''" "example_ZId ''e2''"
  "\<not> example_ZId ''not an id''"
  by (simp_all add: example_ZId_def)

lemma example_world_fields:
  "person_table example_world =
     [\<lparr>person_id = ''p1'', person_environmentId = ''e1'', person_createdAt = 5, person_updatedAt = 5\<rparr>]"
  "environment_table example_world = [''e1'', ''e2'']"
  "cuid_counter example_world = 0"
  "now example_world = 10"
  "faults example_world = []"
  "calls example_world = []"
  "cache_entries example_world = []"
  "revalidated example_world = []"
  by (simp_all add: example_world_def)

lemma example_getPerson_p1:
  "getPerson example_ZId ''p1'' example_world =
     (Inr (Some (transformPrismaPerson
        \<lparr>tpi_id = ''p1'',
         tpi_attributes = [\<lparr>pa_value = ''abc'', pa_attributeClass_name = ''userId''\<rparr>],
         tpi_createdAt = 5, tpi_updatedAt = 5\<rparr>)),
      example_world\<lparr>calls := [PersonFindUnique ''p1'']\<rparr>)"
proof -
  have "prisma_person_findUnique ''p1'' example_world =
     (Inr (Some \<lparr>tpi_id = ''p1'',
         tpi_attributes = [\<lparr>pa_value = ''abc'', pa_attributeClass_name = ''userId''\<rparr>],
         tpi_createdAt = 5, tpi_updatedAt = 5\<rparr>), example_world\<lparr>calls := [PersonFindUnique ''p1'']\<rparr>)"
    by (simp add: prisma_person_findUnique_def store_call_def selectPerson_def example_world_def
        List.map_filter_def find_attributeClass_def)
  then show ?thesis
    by (simp add: getPerson_def try_catch_def example_ZId_ids)
qed

lemma example_person_json:
  "json_round_trip
     (Some (transformPrismaPerson
        \<lparr>tpi_id = ''p1'',
         tpi_attributes = [\<lparr>pa_value = ''abc'', pa_attributeClass_name = ''userId''\<rparr>],
         tpi_createdAt = 5, tpi_updatedAt = 5\<rparr>)) =
   Some \<lparr>tp_id = ''p1'', tp_attributes = [''userId'' \<mapsto> ''abc''],
         tp_createdAt = DateString 5, tp_updatedAt = DateString 5\<rparr>"
  by (simp add: json_round_trip_def transformPrismaPerson_def assign_property_def)

lemma example_world_cached_eq:
  "example_world_cached =
     example_world
       \<lparr>calls := [PersonFindUnique ''p1''],
        cache_entries :=
          [\<lparr>ce_key = [''p1''], ce_tags = [''p1''], ce_lastModified = 10,
            ce_value =
              Some \<lparr>tp_id = ''p1'', tp_attributes = [''userId'' \<mapsto> ''abc''],
                    tp_createdAt = DateString 5, tp_updatedAt = DateString 5\<rparr>\<rparr>]\<rparr>"
  by (simp add: example_world_cached_def getPersonCached_def unstable_cache_def cache_get_def
      invokeCallback_def getPersonCacheKey_def example_getPerson_p1 example_person_json
      example_world_fields)

section \<open>Validation\<close>

lemma getPerson_malformed:
  "\<not> ZId personId \<Longrightarrow> getPerson ZId personId w = (Inl (ValidationError ''Validation failed''), w)"
  by (simp add: getPerson_def)

lemma deletePerson_malformed:
  "\<not> ZId personId \<Longrightarrow> deletePerson ZId personId w = (Inl (ValidationError ''Validation failed''), w)"
  by (simp add: deletePerson_def)

lemma updatePersonAttribute_calls_store:
  "calls (snd (updatePersonAttribute personId attributeClassId v w)) =
     calls w @ [AttributeUpsert attributeClassId personId v]"
  by (auto simp: updatePersonAttribute_def prisma_attribute_upsert_def store_call_def revalidateTag_def
      split: list.splits option.splits prod.splits sum.splits)

text \<open>
  C1. \<open>getPerson\<close> and \<open>deletePerson\<close> validate the identifier first (the two
  lemmas above: a malformed identifier gives a validation error and leaves the
  world, and so every collaborator, untouched). \<open>updatePersonAttribute\<close> has no
  validation: whatever the identifier, its first step is the upsert on the
  store. At the malformed identifier \<open>not an id\<close> the store is called and the
  caller sees the store's error, not a validation error.
\<close>

theorem updatePersonAttribute_malformed_id_reaches_store:
  "\<not> example_ZId ''not an id'' \<and>
   updatePersonAttribute ''not an id'' ''ac3'' ''a@b.c'' example_world =
     (Inl (PrismaClientKnownRequestError ''Required record not found''),
      example_world\<lparr>calls := [AttributeUpsert ''ac3'' ''not an id'' ''a@b.c'']\<rparr>)"
  by (simp add: example_ZId_ids updatePersonAttribute_def prisma_attribute_upsert_def store_call_def
      example_world_fields)
    (simp add: example_world_def attribute_key_def)

section \<open>Error handling\<close>

text \<open>
  C2. Whenever the store call of the operation fails with an error, \<open>getPerson\<close>,
  \<open>getPeople\<close> and \<open>deletePerson\<close> throw \<open>DatabaseError\<close> with the message
  \<open>Database operation failed\<close> if the error is a \<open>PrismaClientKnownRequestError\<close>,
  \<open>createPerson\<close> throws \<open>DatabaseError\<close> with the message of that error, and any
  other error is thrown on as it is.
\<close>

theorem known_store_errors_rewrapped:
  "(ZId personId \<and> fst (prisma_person_findUnique personId w) = Inl error \<longrightarrow>
      getPerson ZId personId w =
        (Inl (if instanceof_PrismaClientKnownRequestError error
              then DatabaseError ''Database operation failed'' else error),
         snd (prisma_person_findUnique personId w))) \<and>
   (ZId environmentId \<and> fst (prisma_person_findMany environmentId w) = Inl error \<longrightarrow>
      getPeople ZId environmentId w =
        (Inl (if instanceof_PrismaClientKnownRequestError error
              then DatabaseError ''Database operation failed'' else error),
         snd (prisma_person_findMany environmentId w))) \<and>
   (ZId personId \<and> fst (prisma_person_delete personId w) = Inl error \<longrightarrow>
      deletePerson ZId personId w =
        (Inl (if instanceof_PrismaClientKnownRequestError error
              then DatabaseError ''Database operation failed'' else error),
         snd (prisma_person_delete personId w))) \<and>
   (ZId environmentId \<and> fst (prisma_person_create environmentId [] w) = Inl error \<longrightarrow>
      createPerson ZId environmentId w =
        (Inl (case error of
                PrismaClientKnownRequestError m \<Rightarrow> DatabaseError m
              | _ \<Rightarrow> error),
         snd (prisma_person_create environmentId [] w)))"
  by (auto simp: getPerson_def getPeople_def deletePerson_def createPerson_def try_catch_def
      split: prod.splits)

theorem known_store_errors_rewrapped_witness:
  "example_ZId ''p1'' \<and> example_ZId ''e1'' \<and>
   fst (prisma_person_findUnique ''p1'' example_world_store_down) =
     Inl (PrismaClientKnownRequestError ''Timed out'') \<and>
   fst (prisma_person_findMany ''e1'' example_world_store_down) =
     Inl (PrismaClientKnownRequestError ''Timed out'') \<and>
   fst (prisma_person_delete ''p1'' example_world_store_down) =
     Inl (PrismaClientKnownRequestError ''Timed out'') \<and>
   fst (prisma_person_create ''e1'' [] example_world_store_down) =
     Inl (PrismaClientKnownRequestError ''Timed out'') \<and>
   fst (getPerson example_ZId ''p1'' example_world_store_down) =
     Inl (DatabaseError ''Database operation failed'') \<and>
   fst (getPeople example_ZId ''e1'' example_world_store_down) =
     Inl (DatabaseError ''Database operation failed'') \<and>
   fst (deletePerson example_ZId ''p1'' example_world_store_down) =
     Inl (DatabaseError ''Database operation failed'') \<and>
   fst (createPerson example_ZId ''e1'' example_world_store_down) =
     Inl (DatabaseError ''Timed out'') \<and>
   fst (prisma_person_findUnique ''p1''
          (example_world_with_faults [Some (OtherError ''TypeError'' ''fetch failed'')])) =
     Inl (OtherError ''TypeError'' ''fetch failed'') \<and>
   fst (getPerson example_ZId ''p1''
          (example_world_with_faults [Some (OtherError ''TypeError'' ''fetch failed'')])) =
     Inl (OtherError ''TypeError'' ''fetch failed'')"
proof -
  let ?e = "PrismaClientKnownRequestError ''Timed out''"
  let ?o = "OtherError ''TypeError'' ''fetch failed''"
  have f: "faults example_world_store_down = [Some ?e]"
    by (simp add: example_world_store_down_def)
  have s: "fst (prisma_person_findUnique ''p1'' example_world_store_down) = Inl ?e"
    "fst (prisma_person_findMany ''e1'' example_world_store_down) = Inl ?e"
    "fst (prisma_person_delete ''p1'' example_world_store_down) = Inl ?e"
    "fst (prisma_person_create ''e1'' [] example_world_store_down) = Inl ?e"
    by (simp_all add: prisma_person_findUnique_def prisma_person_findMany_def
        prisma_person_delete_def prisma_person_create_def store_call_def f)
  have t: "fst (prisma_person_findUnique ''p1'' (example_world_with_faults [Some ?o])) = Inl ?o"
    by (simp add: prisma_person_findUnique_def store_call_def example_world_with_faults_def)
  show ?thesis
    using s t
      known_store_errors_rewrapped [where ZId = example_ZId and personId = "''p1''"
        and environmentId = "''e1''" and w = example_world_store_down and error = ?e]
      known_store_errors_rewrapped [where ZId = example_ZId and personId = "''p1''"
        and w = "example_world_with_faults [Some ?o]" and error = ?o]
    by (simp add: example_ZId_ids)
qed

text \<open>
  C4. For a valid identifier and a store that answers the call, absence of data
  is not an error: \<open>getPerson\<close> on an identifier that matches no record returns
  null, and \<open>getPeople\<close> on an environment without persons returns the empty
  list.
\<close>

theorem absence_is_not_an_error:
  "(ZId personId \<and> store_answers 1 w \<and>
    find (\<lambda>p. person_id p = personId) (person_table w) = None \<longrightarrow>
      getPerson ZId personId w = (Inr None, answered (PersonFindUnique personId) w)) \<and>
   (ZId environmentId \<and> store_answers 1 w \<and>
    filter (\<lambda>p. person_environmentId p = environmentId) (person_table w) = [] \<longrightarrow>
      getPeople ZId environmentId w = (Inr [], answered (PersonFindMany environmentId) w))"
proof (intro conjI impI)
  assume h: "ZId personId \<and> store_answers 1 w \<and>
    find (\<lambda>p. person_id p = personId) (person_table w) = None"
  then have "store_call (PersonFindUnique personId) w = (None, answered (PersonFindUnique personId) w)"
    using store_call_answers [of 0 w] by simp
  with h show "getPerson ZId personId w = (Inr None, answered (PersonFindUnique personId) w)"
    by (simp add: getPerson_def try_catch_def prisma_person_findUnique_def)
next
  assume h: "ZId environmentId \<and> store_answers 1 w \<and>
    filter (\<lambda>p. person_environmentId p = environmentId) (person_table w) = []"
  then have "store_call (PersonFindMany environmentId) w = (None, answered (PersonFindMany environmentId) w)"
    using store_call_answers [of 0 w] by simp
  with h show "getPeople ZId environmentId w = (Inr [], answered (PersonFindMany environmentId) w)"
    by (simp add: getPeople_def try_catch_def prisma_person_findMany_def)
qed

theorem absence_is_not_an_error_witness:
  "example_ZId ''p2'' \<and> example_ZId ''e2'' \<and> store_answers 1 example_world \<and>
   find (\<lambda>p. person_id p = ''p2'') (person_table example_world) = None \<and>
   filter (\<lambda>p. person_environmentId p = ''e2'') (person_table example_world) = [] \<and>
   fst (getPerson example_ZId ''p2'' example_world) = Inr None \<and>
   fst (getPeople example_ZId ''e2'' example_world) = Inr []"
proof -
  have h: "example_ZId ''p2''" "example_ZId ''e2''" "store_answers 1 example_world"
    "find (\<lambda>p. person_id p = ''p2'') (person_table example_world) = None"
    "filter (\<lambda>p. person_environmentId p = ''e2'') (person_table example_world) = []"
    by (simp_all add: example_ZId_def store_answers_def example_world_def)
  show ?thesis
    using h absence_is_not_an_error [where ZId = example_ZId and personId = "''p2''"
        and environmentId = "''e2''" and w = example_world]
    by simp
qed

text \<open>
  C9. \<open>updatePersonAttribute\<close> and \<open>getOrCreatePersonByUserId\<close> have no catch block:
  an error raised by the upsert, by the lookup of the person, by the lookup of
  the attribute class or by the creation reaches the caller as it is, a
  \<open>PrismaClientKnownRequestError\<close> included. Conversely, an error of
  \<open>updatePersonAttribute\<close> is the error the upsert raised, and an error of
  \<open>getOrCreatePersonByUserId\<close> is either its own \<open>Attribute class not found\<close> error
  or the error one of its three calls raised.
\<close>

theorem store_errors_propagate_unchanged:
  "(fst (prisma_attribute_upsert attributeClassId personId v w) = Inl error \<longrightarrow>
      updatePersonAttribute personId attributeClassId v w =
        (Inl error, snd (prisma_attribute_upsert attributeClassId personId v w))) \<and>
   (fst (updatePersonAttribute personId attributeClassId v w) = Inl error \<longrightarrow>
      fst (prisma_attribute_upsert attributeClassId personId v w) = Inl error) \<and>
   (prisma_person_findFirst environmentId ''userId'' userId w = (Inl error, w') \<longrightarrow>
      getOrCreatePersonByUserId userId environmentId w = (Inl error, w')) \<and>
   (prisma_person_findFirst environmentId ''userId'' userId w = (Inr None, w1) \<and>
    getAttributeClassByName environmentId ''userId'' w1 = (Inl error, w') \<longrightarrow>
      getOrCreatePersonByUserId userId environmentId w = (Inl error, w')) \<and>
   (prisma_person_findFirst environmentId ''userId'' userId w = (Inr None, w1) \<and>
    getAttributeClassByName environmentId ''userId'' w1 = (Inr (Some c), w2) \<and>
    prisma_person_create environmentId [(attributeClass_id c, userId)] w2 = (Inl error, w') \<longrightarrow>
      getOrCreatePersonByUserId userId environmentId w = (Inl error, w')) \<and>
   (getOrCreatePersonByUserId userId environmentId w = (Inl error, w') \<longrightarrow>
      error = Error ''Attribute class not found for the given environmentId'' \<or>
      prisma_person_findFirst environmentId ''userId'' userId w = (Inl error, w') \<or>
      (\<exists>w1. prisma_person_findFirst environmentId ''userId'' userId w = (Inr None, w1) \<and>
         (getAttributeClassByName environmentId ''userId'' w1 = (Inl error, w') \<or>
          (\<exists>c w2. getAttributeClassByName environmentId ''userId'' w1 = (Inr (Some c), w2) \<and>
             prisma_person_create environmentId [(attributeClass_id c, userId)] w2 = (Inl error, w')))))"
proof (intro conjI impI)
  assume "fst (prisma_attribute_upsert attributeClassId personId v w) = Inl error"
  then show "updatePersonAttribute personId attributeClassId v w =
        (Inl error, snd (prisma_attribute_upsert attributeClassId personId v w))"
    by (cases "prisma_attribute_upsert attributeClassId personId v w")
      (simp add: updatePersonAttribute_def)
next
  assume "fst (updatePersonAttribute personId attributeClassId v w) = Inl error"
  then show "fst (prisma_attribute_upsert attributeClassId personId v w) = Inl error"
    by (cases "prisma_attribute_upsert attributeClassId personId v w")
      (simp add: updatePersonAttribute_def split: sum.splits)
next
  assume "prisma_person_findFirst environmentId ''userId'' userId w = (Inl error, w')"
  then show "getOrCreatePersonByUserId userId environmentId w = (Inl error, w')"
    by (simp add: getOrCreatePersonByUserId_def)
next
  assume "prisma_person_findFirst environmentId ''userId'' userId w = (Inr None, w1) \<and>
    getAttributeClassByName environmentId ''userId'' w1 = (Inl error, w')"
  then show "getOrCreatePersonByUserId userId environmentId w = (Inl error, w')"
    by (simp add: getOrCreatePersonByUserId_def)
next
  assume "prisma_person_findFirst environmentId ''userId'' userId w = (Inr None, w1) \<and>
    getAttributeClassByName environmentId ''userId'' w1 = (Inr (Some c), w2) \<and>
    prisma_person_create environmentId [(attributeClass_id c, userId)] w2 = (Inl error, w')"
  then show "getOrCreatePersonByUserId userId environmentId w = (Inl error, w')"
    by (simp add: getOrCreatePersonByUserId_def)
next
  assume "getOrCreatePersonByUserId userId environmentId w = (Inl error, w')"
  then show "error = Error ''Attribute class not found for the given environmentId'' \<or>
      prisma_person_findFirst environmentId ''userId'' userId w = (Inl error, w') \<or>
      (\<exists>w1. prisma_person_findFirst environmentId ''userId'' userId w = (Inr None, w1) \<and>
         (getAttributeClassByName environmentId ''userId'' w1 = (Inl error, w') \<or>
          (\<exists>c w2. getAttributeClassByName environmentId ''userId'' w1 = (Inr (Some c), w2) \<and>
             prisma_person_create environmentId [(attributeClass_id c, userId)] w2 = (Inl error, w'))))"
    by (auto simp: getOrCreatePersonByUserId_def split: prod.splits sum.splits option.splits)
qed

lemma example_faults_fields:
  "person_table (example_world_with_faults fs) = person_table example_world"
  "attribute_table (example_world_with_faults fs) = attribute_table example_world"
  "attributeClass_table (example_world_with_faults fs) = attributeClass_table example_world"
  "environment_table (example_world_with_faults fs) = environment_table example_world"
  "faults (example_world_with_faults fs) = fs"
  "calls (example_world_with_faults fs) = []"
  by (simp_all add: example_world_with_faults_def example_world_fields)

theorem store_errors_propagate_unchanged_witness:
  "fst (prisma_attribute_upsert ''ac3'' ''p1'' ''a@b.c'' example_world_store_down) =
     Inl (PrismaClientKnownRequestError ''Timed out'') \<and>
   fst (updatePersonAttribute ''p1'' ''ac3'' ''a@b.c'' example_world_store_down) =
     Inl (PrismaClientKnownRequestError ''Timed out'') \<and>
   fst (prisma_person_findFirst ''e1'' ''userId'' ''xyz'' example_world_store_down) =
     Inl (PrismaClientKnownRequestError ''Timed out'') \<and>
   fst (getOrCreatePersonByUserId ''xyz'' ''e1'' example_world_store_down) =
     Inl (PrismaClientKnownRequestError ''Timed out'') \<and>
   fst (getOrCreatePersonByUserId ''xyz'' ''e1''
          (example_world_with_faults [None, Some (PrismaClientKnownRequestError ''Timed out'')])) =
     Inl (PrismaClientKnownRequestError ''Timed out'') \<and>
   fst (getOrCreatePersonByUserId ''xyz'' ''e1''
          (example_world_with_faults [None, None, Some (PrismaClientKnownRequestError ''Timed out'')])) =
     Inl (PrismaClientKnownRequestError ''Timed out'')"
proof -
  let ?e = "PrismaClientKnownRequestError ''Timed out''"
  let ?down = example_world_store_down
  have f: "faults ?down = [Some ?e]"
    by (simp add: example_world_store_down_def)
  have u: "fst (prisma_attribute_upsert ''ac3'' ''p1'' ''a@b.c'' ?down) = Inl ?e"
    by (simp add: prisma_attribute_upsert_def store_call_def f)
  have ff: "prisma_person_findFirst ''e1'' ''userId'' ''xyz'' ?down =
      (Inl ?e, ?down\<lparr>calls := calls ?down @ [PersonFindFirst ''e1'' ''userId'' ''xyz''], faults := []\<rparr>)"
    by (simp add: prisma_person_findFirst_def store_call_def f)
  let ?w2 = "example_world_with_faults [None, Some ?e]"
  let ?w2a = "?w2\<lparr>calls := [PersonFindFirst ''e1'' ''userId'' ''xyz''], faults := [Some ?e]\<rparr>"
  let ?w2b = "?w2a\<lparr>calls := [PersonFindFirst ''e1'' ''userId'' ''xyz'', GetAttributeClassByName ''e1'' ''userId''], faults := []\<rparr>"
  have a1: "prisma_person_findFirst ''e1'' ''userId'' ''xyz'' ?w2 = (Inr None, ?w2a)"
    by (simp add: prisma_person_findFirst_def store_call_def example_world_with_faults_def
        has_attribute_def example_world_def)
  have a2: "getAttributeClassByName ''e1'' ''userId'' ?w2a = (Inl ?e, ?w2b)"
    by (simp add: getAttributeClassByName_def store_call_def example_faults_fields)
  let ?w3 = "example_world_with_faults [None, None, Some ?e]"
  let ?w3a = "?w3\<lparr>calls := [PersonFindFirst ''e1'' ''userId'' ''xyz''], faults := [None, Some ?e]\<rparr>"
  let ?w3b = "?w3a\<lparr>calls := [PersonFindFirst ''e1'' ''userId'' ''xyz'', GetAttributeClassByName ''e1'' ''userId''], faults := [Some ?e]\<rparr>"
  let ?w3c = "?w3b\<lparr>calls := [PersonFindFirst ''e1'' ''userId'' ''xyz'', GetAttributeClassByName ''e1'' ''userId'',
      PersonCreate ''e1'' [(''ac1'', ''xyz'')]], faults := []\<rparr>"
  let ?c = "\<lparr>attributeClass_id = ''ac1'', attributeClass_name = ''userId'',
          attributeClass_environmentId = ''e1'', attributeClass_archived = False\<rparr>"
  have b1: "prisma_person_findFirst ''e1'' ''userId'' ''xyz'' ?w3 = (Inr None, ?w3a)"
    by (simp add: prisma_person_findFirst_def store_call_def example_world_with_faults_def
        has_attribute_def example_world_def)
  have b2: "getAttributeClassByName ''e1'' ''userId'' ?w3a = (Inr (Some ?c), ?w3b)"
    by (simp add: getAttributeClassByName_def store_call_def example_faults_fields)
      (simp add: example_world_def)
  have b3: "prisma_person_create ''e1'' [(attributeClass_id ?c, ''xyz'')] ?w3b = (Inl ?e, ?w3c)"
    by (simp add: prisma_person_create_def store_call_def example_faults_fields)
  show ?thesis
    using u ff
      store_errors_propagate_unchanged [where attributeClassId = "''ac3''" and personId = "''p1''"
        and v = "''a@b.c''" and w = ?down and error = ?e and environmentId = "''e1''"
        and userId = "''xyz''"
        and w' = "?down\<lparr>calls := calls ?down @ [PersonFindFirst ''e1'' ''userId'' ''xyz''], faults := []\<rparr>"]
      store_errors_propagate_unchanged [where w = ?w2 and error = ?e and environmentId = "''e1''"
        and userId = "''xyz''" and ?w1.0 = ?w2a and w' = ?w2b]
      store_errors_propagate_unchanged [where w = ?w3 and error = ?e and environmentId = "''e1''"
        and userId = "''xyz''" and ?w1.0 = ?w3a and ?w2.0 = ?w3b and c = ?c and w' = ?w3c]
      a1 a2 b1 b2 b3
    by simp
qed

section \<open>Cache invalidation\<close>

text \<open>
  C10. In \<open>deletePerson\<close> and \<open>updatePersonAttribute\<close> the tag \<open>personId\<close> is
  revalidated only after the store call has succeeded. Whenever the store call
  raises an error, and more generally whenever the operation ends in an error,
  the cache entries and the log of revalidated tags are what they were before
  the call. When the store call succeeds, the operation returns after
  revalidating the tag \<open>personId\<close> on the state the store left.
\<close>

theorem invalidation_only_after_store_success:
  "(fst (prisma_person_delete personId w) = Inl error \<longrightarrow>
      cache_entries (snd (deletePerson ZId personId w)) = cache_entries w \<and>
      revalidated (snd (deletePerson ZId personId w)) = revalidated w) \<and>
   (fst (prisma_attribute_upsert attributeClassId personId v w) = Inl error \<longrightarrow>
      cache_entries (snd (updatePersonAttribute personId attributeClassId v w)) = cache_entries w \<and>
      revalidated (snd (updatePersonAttribute personId attributeClassId v w)) = revalidated w) \<and>
   (fst (deletePerson ZId personId w) = Inl error \<longrightarrow>
      cache_entries (snd (deletePerson ZId personId w)) = cache_entries w \<and>
      revalidated (snd (deletePerson ZId personId w)) = revalidated w) \<and>
   (fst (updatePersonAttribute personId attributeClassId v w) = Inl error \<longrightarrow>
      cache_entries (snd (updatePersonAttribute personId attributeClassId v w)) = cache_entries w \<and>
      revalidated (snd (updatePersonAttribute personId attributeClassId v w)) = revalidated w) \<and>
   (ZId personId \<and> fst (prisma_person_delete personId w) = Inr u \<longrightarrow>
      deletePerson ZId personId w =
        (Inr (), revalidateTag personId (snd (prisma_person_delete personId w)))) \<and>
   (fst (prisma_attribute_upsert attributeClassId personId v w) = Inr u \<longrightarrow>
      updatePersonAttribute personId attributeClassId v w =
        (Inr (), revalidateTag personId (snd (prisma_attribute_upsert attributeClassId personId v w))))"
proof -
  obtain rd wd where d: "prisma_person_delete personId w = (rd, wd)"
    by (cases "prisma_person_delete personId w")
  obtain ru wu where u: "prisma_attribute_upsert attributeClassId personId v w = (ru, wu)"
    by (cases "prisma_attribute_upsert attributeClassId personId v w")
  have cd: "cache_entries wd = cache_entries w" "revalidated wd = revalidated w"
    using prisma_person_delete_cache [of personId w] d by simp_all
  have cu: "cache_entries wu = cache_entries w" "revalidated wu = revalidated w"
    using prisma_attribute_upsert_cache [of attributeClassId personId v w] u by simp_all
  show ?thesis
    using d u cd cu
    by (auto simp: deletePerson_def updatePersonAttribute_def try_catch_def
        split: sum.splits if_splits)
qed

lemma example_cached_fields:
  "person_table example_world_cached = person_table example_world"
  "attribute_table example_world_cached = attribute_table example_world"
  "attributeClass_table example_world_cached = attributeClass_table example_world"
  "faults example_world_cached = []"
  "revalidated example_world_cached = []"
  "now example_world_cached = 10"
  "cache_entries example_world_cached =
     [\<lparr>ce_key = [''p1''], ce_tags = [''p1''], ce_lastModified = 10,
       ce_value = Some \<lparr>tp_id = ''p1'', tp_attributes = [''userId'' \<mapsto> ''abc''],
                        tp_createdAt = DateString 5, tp_updatedAt = DateString 5\<rparr>\<rparr>]"
  by (simp_all add: example_world_cached_eq example_world_fields)

lemma example_cached_down_fields:
  "person_table example_world_cached_store_down = person_table example_world"
  "attribute_table example_world_cached_store_down = attribute_table example_world"
  "attributeClass_table example_world_cached_store_down = attributeClass_table example_world"
  "faults example_world_cached_store_down = [Some (PrismaClientKnownRequestError ''Timed out'')]"
  "revalidated example_world_cached_store_down = []"
  "now example_world_cached_store_down = 10"
  "cache_entries example_world_cached_store_down = cache_entries example_world_cached"
  by (simp_all add: example_world_cached_store_down_def example_cached_fields)

theorem invalidation_only_after_store_success_witness:
  "fst (prisma_person_delete ''p1'' example_world_cached_store_down) =
     Inl (PrismaClientKnownRequestError ''Timed out'') \<and>
   fst (prisma_attribute_upsert ''ac3'' ''p1'' ''a@b.c'' example_world_cached_store_down) =
     Inl (PrismaClientKnownRequestError ''Timed out'') \<and>
   fst (deletePerson example_ZId ''p1'' example_world_cached_store_down) =
     Inl (DatabaseError ''Database operation failed'') \<and>
   fst (updatePersonAttribute ''p1'' ''ac3'' ''a@b.c'' example_world_cached_store_down) =
     Inl (PrismaClientKnownRequestError ''Timed out'') \<and>
   cache_entries (snd (deletePerson example_ZId ''p1'' example_world_cached_store_down)) =
     cache_entries example_world_cached \<and>
   cache_entries example_world_cached \<noteq> [] \<and>
   revalidated (snd (deletePerson example_ZId ''p1'' example_world_cached_store_down)) = [] \<and>
   cache_entries (snd (updatePersonAttribute ''p1'' ''ac3'' ''a@b.c'' example_world_cached_store_down)) =
     cache_entries example_world_cached \<and>
   revalidated (snd (updatePersonAttribute ''p1'' ''ac3'' ''a@b.c'' example_world_cached_store_down)) = [] \<and>
   example_ZId ''p1'' \<and>
   fst (prisma_person_delete ''p1'' example_world_cached) = Inr () \<and>
   fst (prisma_attribute_upsert ''ac3'' ''p1'' ''a@b.c'' example_world_cached) = Inr () \<and>
   revalidated (snd (deletePerson example_ZId ''p1'' example_world_cached)) = [''p1''] \<and>
   cache_entries (snd (deletePerson example_ZId ''p1'' example_world_cached)) = [] \<and>
   revalidated (snd (updatePersonAttribute ''p1'' ''ac3'' ''a@b.c'' example_world_cached)) = [''p1''] \<and>
   cache_entries (snd (updatePersonAttribute ''p1'' ''ac3'' ''a@b.c'' example_world_cached)) = []"
proof -
  let ?e = "PrismaClientKnownRequestError ''Timed out''"
  let ?down = example_world_cached_store_down
  let ?up = example_world_cached
  have d1: "fst (prisma_person_delete ''p1'' ?down) = Inl ?e"
    and d2: "fst (prisma_attribute_upsert ''ac3'' ''p1'' ''a@b.c'' ?down) = Inl ?e"
    by (simp_all add: prisma_person_delete_def prisma_attribute_upsert_def store_call_def
        example_cached_down_fields)
  have r1: "fst (deletePerson example_ZId ''p1'' ?down) = Inl (DatabaseError ''Database operation failed'')"
    and r2: "fst (updatePersonAttribute ''p1'' ''ac3'' ''a@b.c'' ?down) = Inl ?e"
    by (simp_all add: deletePerson_def updatePersonAttribute_def try_catch_def example_ZId_ids
        prisma_person_delete_def prisma_attribute_upsert_def store_call_def
        example_cached_down_fields)
  have s1: "fst (prisma_person_delete ''p1'' ?up) = Inr ()"
    by (simp add: prisma_person_delete_def store_call_def example_cached_fields example_world_fields)
  have s2: "fst (prisma_attribute_upsert ''ac3'' ''p1'' ''a@b.c'' ?up) = Inr ()"
    by (simp add: prisma_attribute_upsert_def store_call_def example_cached_fields)
      (simp add: example_world_def attribute_key_def find_attributeClass_def example_cached_fields)
  have n: "cache_entries ?up \<noteq> []"
    by (simp add: example_cached_fields)
  show ?thesis
    using d1 d2 r1 r2 s1 s2 n
      invalidation_only_after_store_success [where ZId = example_ZId and personId = "''p1''"
        and attributeClassId = "''ac3''" and v = "''a@b.c''" and w = ?down and error = ?e]
      invalidation_only_after_store_success [where ZId = example_ZId and personId = "''p1''"
        and attributeClassId = "''ac3''" and v = "''a@b.c''" and w = ?up and u = "()"]
      prisma_person_delete_cache [of "''p1''" ?up]
      prisma_attribute_upsert_cache [of "''ac3''" "''p1''" "''a@b.c''" ?up]
    by (simp add: example_ZId_ids revalidateTag_def example_cached_fields example_cached_down_fields)
qed

section \<open>Archived attribute classes\<close>

lemma set_map_filter:
  "set (List.map_filter f xs) = {y. \<exists>x \<in> set xs. f x = Some y}"
  by (induction xs) (auto split: option.splits)

lemma find_attributeClass_tables:
  "attributeClass_table w' = attributeClass_table w \<Longrightarrow>
   find_attributeClass w' = find_attributeClass w"
  by (simp add: fun_eq_iff find_attributeClass_def)

lemma selectPerson_tables:
  "attribute_table w' = attribute_table w \<Longrightarrow>
   attributeClass_table w' = attributeClass_table w \<Longrightarrow>
   selectPerson w' p = selectPerson w p"
  by (simp add: selectPerson_def find_attributeClass_def cong: if_cong)

lemma selectPerson_id [simp]: "tpi_id (selectPerson w p) = person_id p"
  by (simp add: selectPerson_def)

lemma selectPerson_attribute_origin:
  assumes "a \<in> set (tpi_attributes (selectPerson w p))"
  shows "\<exists>row \<in> set (attribute_table w). \<exists>c.
           attribute_personId row = person_id p \<and>
           find_attributeClass w (attribute_attributeClassId row) = Some c \<and>
           \<not> attributeClass_archived c \<and>
           pa_value a = attribute_value row \<and>
           pa_attributeClass_name a = attributeClass_name c"
proof -
  from assms obtain row where row: "row \<in> set (attribute_table w)"
    and sel: "(if attribute_personId row = person_id p
          then (case find_attributeClass w (attribute_attributeClassId row) of
                  None \<Rightarrow> None
                | Some c \<Rightarrow>
                    if attributeClass_archived c then None
                    else Some \<lparr>pa_value = attribute_value row,
                               pa_attributeClass_name = attributeClass_name c\<rparr>)
          else None) = Some a"
    by (auto simp: selectPerson_def set_map_filter)
  from sel have p: "attribute_personId row = person_id p"
    by (simp split: if_splits)
  with sel obtain c where c: "find_attributeClass w (attribute_attributeClassId row) = Some c"
    by (auto split: option.splits)
  with sel p have "\<not> attributeClass_archived c"
    and "a = \<lparr>pa_value = attribute_value row, pa_attributeClass_name = attributeClass_name c\<rparr>"
    by (auto split: if_splits)
  with row p c show ?thesis
    by auto
qed

lemma transformPrismaPerson_entry_origin:
  assumes "tp_attributes (transformPrismaPerson x) n = Some v"
  shows "\<exists>a \<in> set (tpi_attributes x). pa_attributeClass_name a = n \<and> pa_value a = v"
proof -
  from assms obtain a where
    "find (\<lambda>a. pa_attributeClass_name a = n) (rev (tpi_attributes x)) = Some a" "pa_value a = v"
    by (auto simp: transformPrismaPerson_attributes split: if_splits)
  then show ?thesis
    by (auto simp: find_Some_iff in_set_conv_nth)
      (metis in_set_conv_nth length_rev set_rev)
qed

lemma selected_person_entry_origin:
  assumes "tp_attributes (transformPrismaPerson (selectPerson w p)) n = Some v"
  shows "\<exists>row \<in> set (attribute_table w). \<exists>c.
           attribute_personId row = person_id p \<and> attribute_value row = v \<and>
           find_attributeClass w (attribute_attributeClassId row) = Some c \<and>
           attributeClass_name c = n \<and> \<not> attributeClass_archived c"
proof -
  from transformPrismaPerson_entry_origin [OF assms] obtain a where
    a: "a \<in> set (tpi_attributes (selectPerson w p))" "pa_attributeClass_name a = n" "pa_value a = v"
    by blast
  from selectPerson_attribute_origin [OF a(1)] a(2,3) show ?thesis
    by auto
qed

lemma getPerson_found:
  assumes "getPerson ZId personId w = (Inr (Some person), w')"
  shows "\<exists>p. find (\<lambda>p. person_id p = personId) (person_table w) = Some p \<and>
             person = transformPrismaPerson (selectPerson w p)"
proof -
  obtain r w1 where c: "store_call (PersonFindUnique personId) w = (r, w1)"
    by (cases "store_call (PersonFindUnique personId) w")
  note f = store_call_frame [OF c]
  from f have s: "selectPerson w1 = selectPerson w"
    by (auto simp: fun_eq_iff intro: selectPerson_tables)
  from assms c f show ?thesis
    by (auto simp: getPerson_def try_catch_def prisma_person_findUnique_def s
        split: sum.splits option.splits if_splits)
qed

lemma getPeople_found:
  assumes "getPeople ZId environmentId w = (Inr people, w')"
  shows "people = map (\<lambda>p. transformPrismaPerson (selectPerson w p))
                    (filter (\<lambda>p. person_environmentId p = environmentId) (person_table w))"
proof -
  obtain r w1 where c: "store_call (PersonFindMany environmentId) w = (r, w1)"
    by (cases "store_call (PersonFindMany environmentId) w")
  note f = store_call_frame [OF c]
  from f have s: "selectPerson w1 = selectPerson w"
    by (auto simp: fun_eq_iff intro: selectPerson_tables)
  have m: "map the (filter (\<lambda>person. person \<noteq> None) (map (\<lambda>p. Some (g p)) xs)) = map g xs"
    for g :: "TransformPersonInput \<Rightarrow> TPerson" and xs
    by (induction xs) simp_all
  from assms c f show ?thesis
    by (auto simp: getPeople_def try_catch_def prisma_person_findMany_def s m
        split: sum.splits option.splits if_splits)
qed

text \<open>
  C5. Every entry of the attributes mapping of a person returned by \<open>getPerson\<close>
  or \<open>getPeople\<close> comes from an attribute row of that person whose attribute
  class is not archived: the entry's name is the name of that class and its
  value the value of that row. A row on an archived class, though it is in the
  store, contributes no entry.
\<close>

theorem archived_classes_never_in_attributes:
  "(getPerson ZId personId w = (Inr (Some person), w') \<and> tp_attributes person n = Some v \<longrightarrow>
      tp_id person = personId \<and>
      (\<exists>row \<in> set (attribute_table w). \<exists>c.
          attribute_personId row = personId \<and> attribute_value row = v \<and>
          find_attributeClass w (attribute_attributeClassId row) = Some c \<and>
          attributeClass_name c = n \<and> \<not> attributeClass_archived c)) \<and>
   (getPeople ZId environmentId w = (Inr people, w') \<and> person \<in> set people \<and>
    tp_attributes person n = Some v \<longrightarrow>
      (\<exists>row \<in> set (attribute_table w). \<exists>c.
          attribute_personId row = tp_id person \<and> attribute_value row = v \<and>
          find_attributeClass w (attribute_attributeClassId row) = Some c \<and>
          attributeClass_name c = n \<and> \<not> attributeClass_archived c))"
proof (intro conjI impI)
  assume h: "getPerson ZId personId w = (Inr (Some person), w') \<and> tp_attributes person n = Some v"
  then obtain p where p: "find (\<lambda>p. person_id p = personId) (person_table w) = Some p"
    "person = transformPrismaPerson (selectPerson w p)"
    using getPerson_found by blast
  from p(1) have i: "person_id p = personId"
    by (auto simp: find_Some_iff)
  with p(2) show "tp_id person = personId"
    by simp
  from h p(2) i selected_person_entry_origin [of w p n v]
  show "\<exists>row \<in> set (attribute_table w). \<exists>c.
          attribute_personId row = personId \<and> attribute_value row = v \<and>
          find_attributeClass w (attribute_attributeClassId row) = Some c \<and>
          attributeClass_name c = n \<and> \<not> attributeClass_archived c"
    by simp
next
  assume h: "getPeople ZId environmentId w = (Inr people, w') \<and> person \<in> set people \<and>
    tp_attributes person n = Some v"
  then obtain p where p: "person = transformPrismaPerson (selectPerson w p)"
    using getPeople_found [of ZId environmentId w people w'] by auto
  from h p selected_person_entry_origin [of w p n v]
  show "\<exists>row \<in> set (attribute_table w). \<exists>c.
          attribute_personId row = tp_id person \<and> attribute_value row = v \<and>
          find_attributeClass w (attribute_attributeClassId row) = Some c \<and>
          attributeClass_name c = n \<and> \<not> attributeClass_archived c"
    by simp
qed


lemma example_getPeople_e1:
  "getPeople example_ZId ''e1'' example_world =
     (Inr [transformPrismaPerson
        \<lparr>tpi_id = ''p1'',
         tpi_attributes = [\<lparr>pa_value = ''abc'', pa_attributeClass_name = ''userId''\<rparr>],
         tpi_createdAt = 5, tpi_updatedAt = 5\<rparr>],
      example_world\<lparr>calls := [PersonFindMany ''e1'']\<rparr>)"
proof -
  have "prisma_person_findMany ''e1'' example_world =
     (Inr (Some [\<lparr>tpi_id = ''p1'',
         tpi_attributes = [\<lparr>pa_value = ''abc'', pa_attributeClass_name = ''userId''\<rparr>],
         tpi_createdAt = 5, tpi_updatedAt = 5\<rparr>]), example_world\<lparr>calls := [PersonFindMany ''e1'']\<rparr>)"
    by (simp add: prisma_person_findMany_def store_call_def selectPerson_def example_world_def
        List.map_filter_def find_attributeClass_def)
  then show ?thesis
    by (simp add: getPeople_def try_catch_def example_ZId_ids)
qed

theorem archived_classes_never_in_attributes_witness:
  "getPerson example_ZId ''p1'' example_world =
     (Inr (Some (transformPrismaPerson
        \<lparr>tpi_id = ''p1'',
         tpi_attributes = [\<lparr>pa_value = ''abc'', pa_attributeClass_name = ''userId''\<rparr>],
         tpi_createdAt = 5, tpi_updatedAt = 5\<rparr>)),
      example_world\<lparr>calls := [PersonFindUnique ''p1'']\<rparr>) \<and>
   getPeople example_ZId ''e1'' example_world =
     (Inr [transformPrismaPerson
        \<lparr>tpi_id = ''p1'',
         tpi_attributes = [\<lparr>pa_value = ''abc'', pa_attributeClass_name = ''userId''\<rparr>],
         tpi_createdAt = 5, tpi_updatedAt = 5\<rparr>],
      example_world\<lparr>calls := [PersonFindMany ''e1'']\<rparr>) \<and>
   tp_attributes (transformPrismaPerson
        \<lparr>tpi_id = ''p1'',
         tpi_attributes = [\<lparr>pa_value = ''abc'', pa_attributeClass_name = ''userId''\<rparr>],
         tpi_createdAt = 5, tpi_updatedAt = 5\<rparr>) ''userId'' = Some ''abc'' \<and>
   tp_attributes (transformPrismaPerson
        \<lparr>tpi_id = ''p1'',
         tpi_attributes = [\<lparr>pa_value = ''abc'', pa_attributeClass_name = ''userId''\<rparr>],
         tpi_createdAt = 5, tpi_updatedAt = 5\<rparr>) ''plan'' = None \<and>
   \<lparr>attribute_attributeClassId = ''ac2'', attribute_personId = ''p1'', attribute_value = ''gold''\<rparr>
     \<in> set (attribute_table example_world) \<and>
   find_attributeClass example_world ''ac2'' =
     Some \<lparr>attributeClass_id = ''ac2'', attributeClass_name = ''plan'',
           attributeClass_environmentId = ''e1'', attributeClass_archived = True\<rparr> \<and>
   (\<exists>row \<in> set (attribute_table example_world). \<exists>c.
       attribute_personId row = ''p1'' \<and> attribute_value row = ''abc'' \<and>
       find_attributeClass example_world (attribute_attributeClassId row) = Some c \<and>
       attributeClass_name c = ''userId'' \<and> \<not> attributeClass_archived c)"
proof -
  let ?P = "transformPrismaPerson
        \<lparr>tpi_id = ''p1'',
         tpi_attributes = [\<lparr>pa_value = ''abc'', pa_attributeClass_name = ''userId''\<rparr>],
         tpi_createdAt = 5, tpi_updatedAt = 5\<rparr>"
  have a: "tp_attributes ?P ''userId'' = Some ''abc''" "tp_attributes ?P ''plan'' = None"
    by (simp_all add: transformPrismaPerson_def assign_property_def)
  have r: "\<lparr>attribute_attributeClassId = ''ac2'', attribute_personId = ''p1'', attribute_value = ''gold''\<rparr>
     \<in> set (attribute_table example_world)"
    "find_attributeClass example_world ''ac2'' =
     Some \<lparr>attributeClass_id = ''ac2'', attributeClass_name = ''plan'',
           attributeClass_environmentId = ''e1'', attributeClass_archived = True\<rparr>"
    by (simp_all add: example_world_def find_attributeClass_def)
  show ?thesis
    using a r example_getPerson_p1 example_getPeople_e1
      archived_classes_never_in_attributes [where ZId = example_ZId and personId = "''p1''"
        and w = example_world and person = ?P and n = "''userId''" and v = "''abc''"
        and w' = "example_world\<lparr>calls := [PersonFindUnique ''p1'']\<rparr>"]
      archived_classes_never_in_attributes [where ZId = example_ZId and environmentId = "''e1''"
        and w = example_world and person = ?P and n = "''userId''" and v = "''abc''"
        and people = "[?P]" and w' = "example_world\<lparr>calls := [PersonFindMany ''e1'']\<rparr>"]
    by simp
qed

section \<open>The cached read\<close>


lemma find_filter_excluded:
  "(\<And>x. P x \<Longrightarrow> \<not> Q x) \<Longrightarrow> find P (filter Q xs) = None"
  by (induction xs) auto








section \<open>Updating an attribute\<close>

lemma store_answers_tl:
  "store_answers (Suc n) w \<Longrightarrow> faults w' = tl (faults w) \<Longrightarrow> store_answers n w'"
  by (cases "faults w") (simp_all add: store_answers_def)

lemma selectPerson_answered [simp]: "selectPerson (answered c w) p = selectPerson w p"
  by (rule selectPerson_tables) simp_all

lemma getPerson_answers:
  assumes "ZId personId" "store_answers (Suc n) w"
  shows "getPerson ZId personId w =
           (Inr (map_option (\<lambda>p. transformPrismaPerson (selectPerson w p))
                   (find (\<lambda>p. person_id p = personId) (person_table w))),
            answered (PersonFindUnique personId) w)"
  using assms store_call_answers [OF assms(2), of "PersonFindUnique personId"]
  by (simp add: getPerson_def try_catch_def prisma_person_findUnique_def split: option.splits)

text \<open>The attribute table after an upsert that went through.\<close>

lemma prisma_attribute_upsert_answers:
  assumes "store_answers (Suc n) w"
    and "list_ex (\<lambda>p. person_id p = personId) (person_table w)"
    and "find_attributeClass w attributeClassId \<noteq> None"
  shows "prisma_attribute_upsert attributeClassId personId v w =
           (Inr (),
            (answered (AttributeUpsert attributeClassId personId v) w)
              \<lparr>attribute_table :=
                 (if list_ex (attribute_key attributeClassId personId) (attribute_table w)
                  then map (\<lambda>a. if attribute_key attributeClassId personId a
                                 then a\<lparr>attribute_value := v\<rparr> else a) (attribute_table w)
                  else attribute_table w @
                         [\<lparr>attribute_attributeClassId = attributeClassId,
                           attribute_personId = personId, attribute_value = v\<rparr>])\<rparr>)"
proof -
  have c: "find_attributeClass (answered (AttributeUpsert attributeClassId personId v) w) =
      find_attributeClass w"
    by (rule find_attributeClass_tables) simp
  show ?thesis
    using assms(2,3) store_call_answers [OF assms(1), of "AttributeUpsert attributeClassId personId v"]
    by (simp add: prisma_attribute_upsert_def c)
qed

lemma upsert_rows_key:
  assumes "length (filter (attribute_key a p) rows) \<le> 1"
  shows "filter (attribute_key a p)
           (if list_ex (attribute_key a p) rows
            then map (\<lambda>r. if attribute_key a p r then r\<lparr>attribute_value := v\<rparr> else r) rows
            else rows @ [\<lparr>attribute_attributeClassId = a, attribute_personId = p, attribute_value = v\<rparr>]) =
         [\<lparr>attribute_attributeClassId = a, attribute_personId = p, attribute_value = v\<rparr>]"
proof (cases "list_ex (attribute_key a p) rows")
  case False
  then have "filter (attribute_key a p) rows = []"
    by (auto simp: list_ex_iff filter_empty_conv)
  with False show ?thesis
    by (simp add: attribute_key_def)
next
  case True
  let ?upd = "\<lambda>r. if attribute_key a p r then r\<lparr>attribute_value := v\<rparr> else r"
  have k: "attribute_key a p (?upd r) = attribute_key a p r" for r
    by (simp add: attribute_key_def)
  have "filter (attribute_key a p) (map ?upd rows) = map ?upd (filter (attribute_key a p) rows)"
    by (induction rows) (simp_all add: attribute_key_def)
  moreover from True assms obtain r where r: "filter (attribute_key a p) rows = [r]"
    by (cases "filter (attribute_key a p) rows")
      (auto simp: list_ex_iff filter_empty_conv)
  moreover have "r \<in> set (filter (attribute_key a p) rows)"
    using r by simp
  then have "attribute_key a p r"
    by simp
  then have "?upd r = \<lparr>attribute_attributeClassId = a, attribute_personId = p, attribute_value = v\<rparr>"
    by (cases r) (simp add: attribute_key_def)
  ultimately show ?thesis
    using True by simp
qed

lemma upsert_rows_others:
  "filter (\<lambda>r. \<not> attribute_key a p r)
     (if list_ex (attribute_key a p) rows
      then map (\<lambda>r. if attribute_key a p r then r\<lparr>attribute_value := v\<rparr> else r) rows
      else rows @ [\<lparr>attribute_attributeClassId = a, attribute_personId = p, attribute_value = v\<rparr>]) =
   filter (\<lambda>r. \<not> attribute_key a p r) rows"
proof -
  have "filter (\<lambda>r. \<not> attribute_key a p r)
          (map (\<lambda>r. if attribute_key a p r then r\<lparr>attribute_value := v\<rparr> else r) rows) =
        filter (\<lambda>r. \<not> attribute_key a p r) rows"
    by (induction rows) (simp_all add: attribute_key_def)
  then show ?thesis
    by (simp add: attribute_key_def)
qed

lemma find_all_agree:
  assumes "\<exists>a \<in> set xs. P a" and "\<And>a. a \<in> set xs \<Longrightarrow> P a \<Longrightarrow> f a = v"
  shows "map_option f (find P xs) = Some v"
proof -
  from assms(1) obtain a where "find P xs = Some a"
    by (cases "find P xs") (auto simp: find_None_iff)
  moreover from this have "a \<in> set xs" "P a"
    by (auto simp: find_Some_iff in_set_conv_nth)
  ultimately show ?thesis
    using assms(2) by simp
qed


text \<open>
  C7 as stated does not hold for every attribute class: \<open>getPerson\<close> selects only
  the attributes whose class is not archived. In \<open>example_world\<close> the class \<open>ac2\<close>
  (named \<open>plan\<close>) is archived. Both updates succeed and leave one row for the
  pair, carrying the second value, but the person \<open>getPerson\<close> returns has no
  entry \<open>plan\<close> at all.
\<close>

theorem updatePersonAttribute_archived_class_not_reflected:
  "fst (updatePersonAttribute ''p1'' ''ac2'' ''silver'' example_world) = Inr () \<and>
   fst (updatePersonAttribute ''p1'' ''ac2'' ''platinum''
          (snd (updatePersonAttribute ''p1'' ''ac2'' ''silver'' example_world))) = Inr () \<and>
   filter (attribute_key ''ac2'' ''p1'') (attribute_table example_world_updated_twice) =
     [\<lparr>attribute_attributeClassId = ''ac2'', attribute_personId = ''p1'',
       attribute_value = ''platinum''\<rparr>] \<and>
   fst (getPerson example_ZId ''p1'' example_world_updated_twice) =
     Inr (Some (transformPrismaPerson
        \<lparr>tpi_id = ''p1'',
         tpi_attributes = [\<lparr>pa_value = ''abc'', pa_attributeClass_name = ''userId''\<rparr>],
         tpi_createdAt = 5, tpi_updatedAt = 5\<rparr>)) \<and>
   tp_attributes (transformPrismaPerson
        \<lparr>tpi_id = ''p1'',
         tpi_attributes = [\<lparr>pa_value = ''abc'', pa_attributeClass_name = ''userId''\<rparr>],
         tpi_createdAt = 5, tpi_updatedAt = 5\<rparr>) ''plan'' = None"
proof -
  let ?w1 = "example_world
      \<lparr>attribute_table :=
         [\<lparr>attribute_attributeClassId = ''ac1'', attribute_personId = ''p1'', attribute_value = ''abc''\<rparr>,
          \<lparr>attribute_attributeClassId = ''ac2'', attribute_personId = ''p1'', attribute_value = ''silver''\<rparr>],
       calls := [AttributeUpsert ''ac2'' ''p1'' ''silver''],
       revalidated := [''p1'']\<rparr>"
  let ?w2 = "example_world
      \<lparr>attribute_table :=
         [\<lparr>attribute_attributeClassId = ''ac1'', attribute_personId = ''p1'', attribute_value = ''abc''\<rparr>,
          \<lparr>attribute_attributeClassId = ''ac2'', attribute_personId = ''p1'', attribute_value = ''platinum''\<rparr>],
       calls := [AttributeUpsert ''ac2'' ''p1'' ''silver'', AttributeUpsert ''ac2'' ''p1'' ''platinum''],
       revalidated := [''p1'', ''p1'']\<rparr>"
  have u1: "updatePersonAttribute ''p1'' ''ac2'' ''silver'' example_world = (Inr (), ?w1)"
    by (simp add: updatePersonAttribute_def prisma_attribute_upsert_def store_call_def
        revalidateTag_def attribute_key_def example_world_def)
  have u2: "updatePersonAttribute ''p1'' ''ac2'' ''platinum'' ?w1 = (Inr (), ?w2)"
    by (simp add: updatePersonAttribute_def prisma_attribute_upsert_def store_call_def
        revalidateTag_def attribute_key_def example_world_def)
  have w: "example_world_updated_twice = ?w2"
    by (simp add: example_world_updated_twice_def u1 u2)
  have k: "filter (attribute_key ''ac2'' ''p1'') (attribute_table ?w2) =
      [\<lparr>attribute_attributeClassId = ''ac2'', attribute_personId = ''p1'',
        attribute_value = ''platinum''\<rparr>]"
    by (simp add: attribute_key_def)
  have g: "fst (getPerson example_ZId ''p1'' ?w2) =
     Inr (Some (transformPrismaPerson
        \<lparr>tpi_id = ''p1'',
         tpi_attributes = [\<lparr>pa_value = ''abc'', pa_attributeClass_name = ''userId''\<rparr>],
         tpi_createdAt = 5, tpi_updatedAt = 5\<rparr>))"
    by (simp add: getPerson_def try_catch_def prisma_person_findUnique_def store_call_def
        selectPerson_def List.map_filter_def find_attributeClass_def example_ZId_ids
        example_world_def)
  have n: "tp_attributes (transformPrismaPerson
        \<lparr>tpi_id = ''p1'',
         tpi_attributes = [\<lparr>pa_value = ''abc'', pa_attributeClass_name = ''userId''\<rparr>],
         tpi_createdAt = 5, tpi_updatedAt = 5\<rparr>) ''plan'' = None"
    by (simp add: transformPrismaPerson_def assign_property_def)
  show ?thesis
    using u1 u2 k g n by (simp only: w fst_conv snd_conv)
qed

lemma revalidateTag_fields [simp]:
  "person_table (revalidateTag t w) = person_table w"
  "attribute_table (revalidateTag t w) = attribute_table w"
  "attributeClass_table (revalidateTag t w) = attributeClass_table w"
  "environment_table (revalidateTag t w) = environment_table w"
  "faults (revalidateTag t w) = faults w"
  "calls (revalidateTag t w) = calls w"
  "now (revalidateTag t w) = now w"
  "cuid (revalidateTag t w) = cuid w"
  "cuid_counter (revalidateTag t w) = cuid_counter w"
  by (simp_all add: revalidateTag_def)

lemma answered_faults [simp]: "faults (answered c w) = tl (faults w)"
  by (simp add: answered_def)

lemma updatePersonAttribute_answers:
  assumes "store_answers (Suc n) w"
    and "list_ex (\<lambda>p. person_id p = personId) (person_table w)"
    and "find_attributeClass w attributeClassId \<noteq> None"
  shows "\<exists>w'. updatePersonAttribute personId attributeClassId v w = (Inr (), w') \<and>
           store_answers n w' \<and>
           person_table w' = person_table w \<and>
           attributeClass_table w' = attributeClass_table w \<and>
           attribute_table w' =
             (if list_ex (attribute_key attributeClassId personId) (attribute_table w)
              then map (\<lambda>a. if attribute_key attributeClassId personId a
                             then a\<lparr>attribute_value := v\<rparr> else a) (attribute_table w)
              else attribute_table w @
                     [\<lparr>attribute_attributeClassId = attributeClassId,
                       attribute_personId = personId, attribute_value = v\<rparr>])"
proof -
  let ?rows = "if list_ex (attribute_key attributeClassId personId) (attribute_table w)
      then map (\<lambda>a. if attribute_key attributeClassId personId a
                     then a\<lparr>attribute_value := v\<rparr> else a) (attribute_table w)
      else attribute_table w @
             [\<lparr>attribute_attributeClassId = attributeClassId,
               attribute_personId = personId, attribute_value = v\<rparr>]"
  let ?w' = "revalidateTag personId
      ((answered (AttributeUpsert attributeClassId personId v) w)\<lparr>attribute_table := ?rows\<rparr>)"
  have "updatePersonAttribute personId attributeClassId v w = (Inr (), ?w')"
    using prisma_attribute_upsert_answers [OF assms, of v]
    by (simp add: updatePersonAttribute_def)
  moreover have "store_answers n ?w'"
    by (rule store_answers_tl [OF assms(1)]) simp
  ultimately show ?thesis
    by (intro exI [of _ ?w']) simp
qed

text \<open>
  C7 amended. Let the identifier of the person be well-formed, let the person
  exist, let the attribute class exist, not be archived and have a name other
  than \<open>__proto__\<close>, let the store answer the three calls, let the attribute
  table hold at most one row for the pair (its unique key), and let no other
  row of the person lie on a class that is not archived and has the same name.
  Then two calls of \<open>updatePersonAttribute\<close> for the pair, with any two values,
  both succeed and leave exactly one row for the pair, which carries the second
  value; the rows of other pairs are as before; and a \<open>getPerson\<close> that then
  reads the store (the body of \<open>getPerson\<close>, not an answer remembered from a
  read of the same person earlier in the request) returns the person with the
  second value under the name of the class.
\<close>

theorem updatePersonAttribute_last_write_wins:
  assumes valid: "ZId personId"
    and answers: "store_answers 3 w"
    and person: "list_ex (\<lambda>p. person_id p = personId) (person_table w)"
    and cls: "find_attributeClass w attributeClassId = Some c"
    and live: "\<not> attributeClass_archived c"
    and proper: "attributeClass_name c \<noteq> ''__proto__''"
    and unique: "one_row_per_key w attributeClassId personId"
    and namesake: "no_namesake_on_person w attributeClassId personId (attributeClass_name c)"
  shows "\<exists>w1 w2 w3 found.
           updatePersonAttribute personId attributeClassId v1 w = (Inr (), w1) \<and>
           updatePersonAttribute personId attributeClassId v2 w1 = (Inr (), w2) \<and>
           filter (attribute_key attributeClassId personId) (attribute_table w2) =
             [\<lparr>attribute_attributeClassId = attributeClassId,
               attribute_personId = personId, attribute_value = v2\<rparr>] \<and>
           filter (\<lambda>r. \<not> attribute_key attributeClassId personId r) (attribute_table w2) =
             filter (\<lambda>r. \<not> attribute_key attributeClassId personId r) (attribute_table w) \<and>
           getPerson ZId personId w2 = (Inr (Some found), w3) \<and>
           tp_id found = personId \<and>
           tp_attributes found (attributeClass_name c) = Some v2"
proof -
  let ?k = "attribute_key attributeClassId personId"
  let ?n = "attributeClass_name c"
  let ?new = "\<lparr>attribute_attributeClassId = attributeClassId,
      attribute_personId = personId, attribute_value = v2\<rparr>"
  have a3: "store_answers (Suc 2) w"
    using answers by simp
  from updatePersonAttribute_answers [OF a3 person, of attributeClassId v1] cls
  obtain w1 where w1: "updatePersonAttribute personId attributeClassId v1 w = (Inr (), w1)"
    "store_answers 2 w1" "person_table w1 = person_table w"
    "attributeClass_table w1 = attributeClass_table w"
    "attribute_table w1 =
       (if list_ex ?k (attribute_table w)
        then map (\<lambda>a. if ?k a then a\<lparr>attribute_value := v1\<rparr> else a) (attribute_table w)
        else attribute_table w @
               [\<lparr>attribute_attributeClassId = attributeClassId,
                 attribute_personId = personId, attribute_value = v1\<rparr>])"
    by auto
  have c1: "find_attributeClass w1 = find_attributeClass w"
    by (rule find_attributeClass_tables) (rule w1(4))
  have a2: "store_answers (Suc 1) w1"
    using w1(2) by (simp add: numeral_2_eq_2)
  have p1: "list_ex (\<lambda>p. person_id p = personId) (person_table w1)"
    using person w1(3) by simp
  from updatePersonAttribute_answers [OF a2 p1, of attributeClassId v2] cls c1
  obtain w2 where w2: "updatePersonAttribute personId attributeClassId v2 w1 = (Inr (), w2)"
    "store_answers 1 w2" "person_table w2 = person_table w1"
    "attributeClass_table w2 = attributeClass_table w1"
    "attribute_table w2 =
       (if list_ex ?k (attribute_table w1)
        then map (\<lambda>a. if ?k a then a\<lparr>attribute_value := v2\<rparr> else a) (attribute_table w1)
        else attribute_table w1 @ [?new])"
    by auto
  have c2: "find_attributeClass w2 = find_attributeClass w"
    using find_attributeClass_tables [of w2 w1] w2(4) c1 by simp
  have k1: "length (filter ?k (attribute_table w1)) \<le> 1"
    using upsert_rows_key [of attributeClassId personId "attribute_table w" v1] unique
    by (simp add: one_row_per_key_def w1(5))
  have key: "filter ?k (attribute_table w2) = [?new]"
    using upsert_rows_key [OF k1, of v2] by (simp add: w2(5))
  have others: "filter (\<lambda>r. \<not> ?k r) (attribute_table w2) =
      filter (\<lambda>r. \<not> ?k r) (attribute_table w)"
    using upsert_rows_others [of attributeClassId personId "attribute_table w1" v2]
      upsert_rows_others [of attributeClassId personId "attribute_table w" v1]
    by (simp add: w2(5) w1(5))
  from person obtain p where p: "find (\<lambda>p. person_id p = personId) (person_table w) = Some p"
    by (cases "find (\<lambda>p. person_id p = personId) (person_table w)")
      (auto simp: find_None_iff list_ex_iff)
  then have pid: "person_id p = personId"
    by (auto simp: find_Some_iff)
  let ?found = "transformPrismaPerson (selectPerson w2 p)"
  have a1: "store_answers (Suc 0) w2"
    using w2(2) by simp
  have get: "getPerson ZId personId w2 = (Inr (Some ?found), answered (PersonFindUnique personId) w2)"
    using getPerson_answers [of ZId personId 0 w2] valid a1 p by (simp add: w2(3) w1(3))
  let ?sel = "tpi_attributes (selectPerson w2 p)"
  have new_in: "?new \<in> set (attribute_table w2)"
  proof -
    have "?new \<in> set (filter ?k (attribute_table w2))"
      by (simp add: key)
    then show ?thesis
      by simp
  qed
  have ex: "\<exists>a \<in> set (rev ?sel). pa_attributeClass_name a = ?n"
  proof -
    have "\<lparr>pa_value = v2, pa_attributeClass_name = ?n\<rparr> \<in> set ?sel"
      using new_in cls live pid
      by (auto simp: selectPerson_def set_map_filter c2 intro!: bexI [of _ ?new])
    then show ?thesis
      by force
  qed
  have agree: "pa_value a = v2" if "a \<in> set (rev ?sel)" "pa_attributeClass_name a = ?n" for a
  proof -
    from that(1) have "a \<in> set ?sel"
      by simp
    from selectPerson_attribute_origin [OF this] obtain row c' where
      row: "row \<in> set (attribute_table w2)" "attribute_personId row = person_id p"
      "find_attributeClass w2 (attribute_attributeClassId row) = Some c'"
      "\<not> attributeClass_archived c'"
      "pa_value a = attribute_value row" "pa_attributeClass_name a = attributeClass_name c'"
      by blast
    show ?thesis
    proof (cases "?k row")
      case True
      with row(1) have "row \<in> set (filter ?k (attribute_table w2))"
        by simp
      then have "row = ?new"
        by (simp add: key)
      with row(5) show ?thesis
        by simp
    next
      case False
      with row(1) have "row \<in> set (filter (\<lambda>r. \<not> ?k r) (attribute_table w2))"
        by simp
      then have old: "row \<in> set (attribute_table w)"
        by (simp add: others)
      from False row(2) pid have "attribute_attributeClassId row \<noteq> attributeClassId"
        by (simp add: attribute_key_def)
      with namesake old row(2,3,4) pid have "attributeClass_name c' \<noteq> ?n"
        by (auto simp: no_namesake_on_person_def list_all_iff c2)
      with row(6) that(2) show ?thesis
        by simp
    qed
  qed
  have "tp_attributes ?found ?n = Some v2"
    using find_all_agree [of "rev ?sel" "\<lambda>a. pa_attributeClass_name a = ?n" pa_value v2] ex agree
      proper
    by (simp add: transformPrismaPerson_attributes)
  with w1(1) w2(1) key others get pid show ?thesis
    by (intro exI [of _ w1] exI [of _ w2] exI [of _ "answered (PersonFindUnique personId) w2"]
        exI [of _ ?found]) simp
qed


theorem updatePersonAttribute_last_write_wins_witness:
  "example_ZId ''p1'' \<and> store_answers 3 example_world \<and>
   list_ex (\<lambda>p. person_id p = ''p1'') (person_table example_world) \<and>
   find_attributeClass example_world ''ac3'' =
     Some \<lparr>attributeClass_id = ''ac3'', attributeClass_name = ''email'',
           attributeClass_environmentId = ''e1'', attributeClass_archived = False\<rparr> \<and>
   ''email'' \<noteq> ''__proto__'' \<and>
   one_row_per_key example_world ''ac3'' ''p1'' \<and>
   no_namesake_on_person example_world ''ac3'' ''p1'' ''email'' \<and>
   (\<exists>w1 w2 w3 found.
       updatePersonAttribute ''p1'' ''ac3'' ''a@b.c'' example_world = (Inr (), w1) \<and>
       updatePersonAttribute ''p1'' ''ac3'' ''c@d.e'' w1 = (Inr (), w2) \<and>
       filter (attribute_key ''ac3'' ''p1'') (attribute_table w2) =
         [\<lparr>attribute_attributeClassId = ''ac3'', attribute_personId = ''p1'',
           attribute_value = ''c@d.e''\<rparr>] \<and>
       filter (\<lambda>r. \<not> attribute_key ''ac3'' ''p1'' r) (attribute_table w2) =
         filter (\<lambda>r. \<not> attribute_key ''ac3'' ''p1'' r) (attribute_table example_world) \<and>
       getPerson example_ZId ''p1'' w2 = (Inr (Some found), w3) \<and>
       tp_id found = ''p1'' \<and>
       tp_attributes found ''email'' = Some ''c@d.e'')"
proof -
  let ?c = "\<lparr>attributeClass_id = ''ac3'', attributeClass_name = ''email'',
           attributeClass_environmentId = ''e1'', attributeClass_archived = False\<rparr>"
  have valid: "example_ZId ''p1''"
    by (simp add: example_ZId_ids)
  have answers: "store_answers 3 example_world"
    by (simp add: store_answers_def example_world_fields)
  have person: "list_ex (\<lambda>p. person_id p = ''p1'') (person_table example_world)"
    by (simp add: example_world_fields)
  have cls: "find_attributeClass example_world ''ac3'' = Some ?c"
    by (simp add: find_attributeClass_def example_world_def)
  have live: "\<not> attributeClass_archived ?c"
    by simp
  have proper: "attributeClass_name ?c \<noteq> ''__proto__''"
    by simp
  have unique: "one_row_per_key example_world ''ac3'' ''p1''"
    by (simp add: one_row_per_key_def attribute_key_def example_world_def)
  have namesake: "no_namesake_on_person example_world ''ac3'' ''p1'' (attributeClass_name ?c)"
    by (simp add: no_namesake_on_person_def find_attributeClass_def example_world_def)
  from updatePersonAttribute_last_write_wins
    [where ZId = example_ZId and personId = "''p1''" and w = example_world
      and attributeClassId = "''ac3''" and c = ?c and ?v1.0 = "''a@b.c''" and ?v2.0 = "''c@d.e''"]
    valid answers person cls live proper unique namesake
  show ?thesis
    by simp
qed

section \<open>Find or create by external user id\<close>

lemma has_attribute_tables:
  "attribute_table w' = attribute_table w \<Longrightarrow>
   attributeClass_table w' = attributeClass_table w \<Longrightarrow>
   has_attribute w' n v p = has_attribute w n v p"
  using find_attributeClass_tables [of w' w] by (simp add: has_attribute_def)

lemma has_attribute_answered [simp]:
  "has_attribute (answered c w) n v p = has_attribute w n v p"
  by (rule has_attribute_tables) simp_all

lemma find_append_case:
  "find P (xs @ ys) = (case find P xs of None \<Rightarrow> find P ys | Some x \<Rightarrow> Some x)"
  by (induction xs) auto

lemma find_attributeClass_distinct:
  assumes "distinct (map attributeClass_id (attributeClass_table w))"
    and "c \<in> set (attributeClass_table w)"
  shows "find_attributeClass w (attributeClass_id c) = Some c"
proof -
  have "distinct (map attributeClass_id cs) \<Longrightarrow> c \<in> set cs \<Longrightarrow>
      find (\<lambda>x. attributeClass_id x = attributeClass_id c) cs = Some c" for cs
    by (induction cs) auto
  with assms show ?thesis
    by (simp add: find_attributeClass_def)
qed

lemma prisma_person_findFirst_answers:
  assumes "store_answers (Suc n) w"
  shows "prisma_person_findFirst environmentId className v w =
           (Inr (map_option (selectPerson w)
                   (find (\<lambda>p. person_environmentId p = environmentId \<and>
                              has_attribute w className v p) (person_table w))),
            answered (PersonFindFirst environmentId className v) w)"
  using store_call_answers [OF assms, of "PersonFindFirst environmentId className v"]
  by (simp add: prisma_person_findFirst_def cong: option.map_cong)

lemma getAttributeClassByName_answers:
  assumes "store_answers (Suc n) w"
  shows "getAttributeClassByName environmentId className w =
           (Inr (find (\<lambda>c. attributeClass_environmentId c = environmentId \<and>
                            attributeClass_name c = className) (attributeClass_table w)),
            answered (GetAttributeClassByName environmentId className) w)"
  using store_call_answers [OF assms, of "GetAttributeClassByName environmentId className"]
  by (simp add: getAttributeClassByName_def)

lemma prisma_person_create_answers:
  assumes "store_answers (Suc n) w"
    and "environmentId \<in> set (environment_table w)"
    and "find_attributeClass w attributeClassId \<noteq> None"
    and "cuid w (cuid_counter w) \<notin> set (map person_id (person_table w))"
  shows "prisma_person_create environmentId [(attributeClassId, v)] w =
           (Inr (selectPerson
                   ((answered (PersonCreate environmentId [(attributeClassId, v)]) w)
                      \<lparr>person_table := person_table w @
                         [\<lparr>person_id = cuid w (cuid_counter w),
                           person_environmentId = environmentId,
                           person_createdAt = now w, person_updatedAt = now w\<rparr>],
                       attribute_table := attribute_table w @
                         [\<lparr>attribute_attributeClassId = attributeClassId,
                           attribute_personId = cuid w (cuid_counter w),
                           attribute_value = v\<rparr>],
                       cuid_counter := Suc (cuid_counter w)\<rparr>)
                   \<lparr>person_id = cuid w (cuid_counter w),
                    person_environmentId = environmentId,
                    person_createdAt = now w, person_updatedAt = now w\<rparr>),
            (answered (PersonCreate environmentId [(attributeClassId, v)]) w)
              \<lparr>person_table := person_table w @
                 [\<lparr>person_id = cuid w (cuid_counter w),
                   person_environmentId = environmentId,
                   person_createdAt = now w, person_updatedAt = now w\<rparr>],
               attribute_table := attribute_table w @
                 [\<lparr>attribute_attributeClassId = attributeClassId,
                   attribute_personId = cuid w (cuid_counter w),
                   attribute_value = v\<rparr>],
               cuid_counter := Suc (cuid_counter w)\<rparr>)"
proof -
  have c: "find_attributeClass (answered (PersonCreate environmentId [(attributeClassId, v)]) w) =
      find_attributeClass w"
    by (rule find_attributeClass_tables) simp
  show ?thesis
    using assms(2-4) store_call_answers [OF assms(1), of "PersonCreate environmentId [(attributeClassId, v)]"]
    by (simp add: prisma_person_create_def c Let_def)
qed

lemma map_filter_append:
  "List.map_filter f (xs @ ys) = List.map_filter f xs @ List.map_filter f ys"
  by (simp add: List.map_filter_def)

lemma selectPerson_append_row:
  assumes "attribute_table w' = attribute_table w @ [row]"
    and "attributeClass_table w' = attributeClass_table w"
    and "attribute_personId row = person_id p"
    and "find_attributeClass w (attribute_attributeClassId row) = Some c"
    and "\<not> attributeClass_archived c"
  shows "tpi_attributes (selectPerson w' p) =
           tpi_attributes (selectPerson w p) @
           [\<lparr>pa_value = attribute_value row, pa_attributeClass_name = attributeClass_name c\<rparr>]"
proof -
  have fa: "find_attributeClass w' = find_attributeClass w"
    by (rule find_attributeClass_tables) (rule assms(2))
  show ?thesis
    by (simp add: selectPerson_def map_filter_append assms(1,3,4,5) fa cong: if_cong)
qed

text \<open>
  C8. Let the store answer the calls, let the environment exist and hold an
  attribute class named \<open>userId\<close>, let attribute class identifiers be unique, and
  let the store generate an identifier no person has yet. Then two calls of
  \<open>getOrCreatePersonByUserId\<close> in sequence with the same arguments both succeed
  and return the same person: the second call makes one call to the store, the
  lookup, and leaves the tables as the first call left them. If the first call
  finds no person, it creates one with a single new attribute row (class
  \<open>userId\<close>, the given value), and the person returned has the given value
  under \<open>userId\<close> unless that class is archived; if it finds one, it changes no
  table.
\<close>

theorem getOrCreatePersonByUserId_twice_same_person:
  assumes answers: "store_answers 4 w"
    and env: "environmentId \<in> set (environment_table w)"
    and cls: "find (\<lambda>c. attributeClass_environmentId c = environmentId \<and>
                          attributeClass_name c = ''userId'') (attributeClass_table w) = Some c"
    and ids: "distinct (map attributeClass_id (attributeClass_table w))"
    and fresh: "cuid w (cuid_counter w) \<notin> set (map person_id (person_table w))"
  shows "\<exists>first w1 second w2.
           getOrCreatePersonByUserId userId environmentId w = (Inr first, w1) \<and>
           getOrCreatePersonByUserId userId environmentId w1 = (Inr second, w2) \<and>
           tp_id second = tp_id first \<and> second = first \<and>
           person_table w2 = person_table w1 \<and> attribute_table w2 = attribute_table w1 \<and>
           calls w2 = calls w1 @ [PersonFindFirst environmentId ''userId'' userId] \<and>
           (case find (\<lambda>p. person_environmentId p = environmentId \<and>
                            has_attribute w ''userId'' userId p) (person_table w) of
              None \<Rightarrow>
                person_table w1 = person_table w @
                  [\<lparr>person_id = tp_id first, person_environmentId = environmentId,
                    person_createdAt = now w, person_updatedAt = now w\<rparr>] \<and>
                attribute_table w1 = attribute_table w @
                  [\<lparr>attribute_attributeClassId = attributeClass_id c,
                    attribute_personId = tp_id first, attribute_value = userId\<rparr>] \<and>
                tp_id first = cuid w (cuid_counter w) \<and>
                (attributeClass_archived c \<or> tp_attributes first ''userId'' = Some userId)
            | Some existing \<Rightarrow>
                person_table w1 = person_table w \<and> attribute_table w1 = attribute_table w \<and>
                tp_id first = person_id existing)"
proof -
  let ?match = "\<lambda>w p. person_environmentId p = environmentId \<and> has_attribute w ''userId'' userId p"
  let ?ff = "PersonFindFirst environmentId ''userId'' userId"
  have a4: "store_answers (Suc 3) w"
    using answers by simp
  have c_in: "c \<in> set (attributeClass_table w)" and c_name: "attributeClass_name c = ''userId''"
    using cls by (auto simp: find_Some_iff in_set_conv_nth)
  have c_find: "find_attributeClass w (attributeClass_id c) = Some c"
    by (rule find_attributeClass_distinct [OF ids c_in])
  show ?thesis
  proof (cases "find (?match w) (person_table w)")
    case (Some existing)
    let ?first = "transformPrismaPerson (selectPerson w existing)"
    let ?w1 = "answered ?ff w"
    have first: "getOrCreatePersonByUserId userId environmentId w = (Inr ?first, ?w1)"
      using prisma_person_findFirst_answers [OF a4, of environmentId "''userId''" userId] Some
      by (simp add: getOrCreatePersonByUserId_def)
    have a3: "store_answers (Suc 2) ?w1"
      using store_answers_answered [OF a4, of ?ff] by simp
    have second: "getOrCreatePersonByUserId userId environmentId ?w1 = (Inr ?first, answered ?ff ?w1)"
      using prisma_person_findFirst_answers [OF a3, of environmentId "''userId''" userId] Some
      by (simp add: getOrCreatePersonByUserId_def cong: find_cong)
    from first second Some show ?thesis
      by (intro exI [of _ ?first] exI [of _ ?w1] exI [of _ "answered ?ff ?w1"]) simp
  next
    case None
    let ?lookup = "GetAttributeClassByName environmentId ''userId''"
    let ?create = "PersonCreate environmentId [(attributeClass_id c, userId)]"
    let ?newId = "cuid w (cuid_counter w)"
    let ?newp = "\<lparr>person_id = ?newId, person_environmentId = environmentId,
        person_createdAt = now w, person_updatedAt = now w\<rparr>"
    let ?newrow = "\<lparr>attribute_attributeClassId = attributeClass_id c,
        attribute_personId = ?newId, attribute_value = userId\<rparr>"
    let ?wa = "answered ?ff w"
    let ?wb = "answered ?lookup ?wa"
    let ?wd = "(answered ?create ?wb)
        \<lparr>person_table := person_table w @ [?newp],
         attribute_table := attribute_table w @ [?newrow],
         cuid_counter := Suc (cuid_counter w)\<rparr>"
    let ?w1 = "revalidateTag ?newId ?wd"
    let ?first = "transformPrismaPerson (selectPerson ?wd ?newp)"
    have a3: "store_answers (Suc 2) ?wa"
      using store_answers_answered [OF a4, of ?ff] by simp
    have a2: "store_answers (Suc 1) ?wb"
      using store_answers_answered [OF a3, of ?lookup] by (simp add: numeral_2_eq_2)
    have s1: "prisma_person_findFirst environmentId ''userId'' userId w = (Inr None, ?wa)"
      using prisma_person_findFirst_answers [OF a4, of environmentId "''userId''" userId] None
      by simp
    have s2: "getAttributeClassByName environmentId ''userId'' ?wa = (Inr (Some c), ?wb)"
      using getAttributeClassByName_answers [OF a3, of environmentId "''userId''"] cls
      by simp
    have cb: "find_attributeClass ?wb = find_attributeClass w"
      by (rule find_attributeClass_tables) simp
    have s3: "prisma_person_create environmentId [(attributeClass_id c, userId)] ?wb =
        (Inr (selectPerson ?wd ?newp), ?wd)"
      using prisma_person_create_answers [OF a2, of environmentId "attributeClass_id c" userId]
        env c_find fresh
      by (simp add: cb)
    have first: "getOrCreatePersonByUserId userId environmentId w = (Inr ?first, ?w1)"
      by (simp add: getOrCreatePersonByUserId_def s1 s2 s3)
    have a1: "store_answers (Suc 0) ?w1"
      using store_answers_tl [OF a2, of ?w1] by simp
    have c1: "find_attributeClass ?w1 = find_attributeClass w"
      by (rule find_attributeClass_tables) simp
    have none: "\<not> ?match w p" if "p \<in> set (person_table w)" for p
      using None that by (auto simp: find_None_iff)
    have old: "\<not> ?match ?w1 p" if "p \<in> set (person_table w)" for p
    proof -
      from that fresh have "person_id p \<noteq> ?newId"
        by (metis image_eqI set_map)
      then have "has_attribute ?w1 ''userId'' userId p = has_attribute w ''userId'' userId p"
        by (auto simp: has_attribute_def c1)
      with none [OF that] show ?thesis
        by simp
    qed
    have new: "?match ?w1 ?newp"
      by (simp add: has_attribute_def c1 c_find c_name)
    have "find (?match ?w1) (person_table w) = None"
      using old by (auto simp: find_None_iff)
    with new have ff2: "find (?match ?w1) (person_table ?w1) = Some ?newp"
      by (simp add: find_append_case)
    have sel: "selectPerson ?w1 ?newp = selectPerson ?wd ?newp"
      by (rule selectPerson_tables) simp_all
    have second: "getOrCreatePersonByUserId userId environmentId ?w1 =
        (Inr ?first, answered ?ff ?w1)"
      using prisma_person_findFirst_answers [OF a1, of environmentId "''userId''" userId] ff2
      by (simp add: getOrCreatePersonByUserId_def sel)
    have attr: "tp_attributes ?first ''userId'' = Some userId" if "\<not> attributeClass_archived c"
    proof -
      have "tpi_attributes (selectPerson ?wd ?newp) =
          tpi_attributes (selectPerson w ?newp) @
          [\<lparr>pa_value = attribute_value ?newrow, pa_attributeClass_name = attributeClass_name c\<rparr>]"
        by (rule selectPerson_append_row) (simp_all add: c_find that)
      then show ?thesis
        by (simp add: transformPrismaPerson_attributes c_name)
    qed
    have id: "tp_id ?first = ?newId"
      by simp
    from first second None attr id show ?thesis
      by (intro exI [of _ ?first] exI [of _ ?w1] exI [of _ "answered ?ff ?w1"]) auto
  qed
qed


theorem getOrCreatePersonByUserId_twice_same_person_witness:
  "store_answers 4 example_world \<and>
   ''e1'' \<in> set (environment_table example_world) \<and>
   find (\<lambda>c. attributeClass_environmentId c = ''e1'' \<and> attributeClass_name c = ''userId'')
     (attributeClass_table example_world) =
     Some \<lparr>attributeClass_id = ''ac1'', attributeClass_name = ''userId'',
           attributeClass_environmentId = ''e1'', attributeClass_archived = False\<rparr> \<and>
   distinct (map attributeClass_id (attributeClass_table example_world)) \<and>
   cuid example_world (cuid_counter example_world) = ''c'' \<and>
   ''c'' \<notin> set (map person_id (person_table example_world)) \<and>
   (\<exists>first w1 second w2.
       getOrCreatePersonByUserId ''xyz'' ''e1'' example_world = (Inr first, w1) \<and>
       getOrCreatePersonByUserId ''xyz'' ''e1'' w1 = (Inr second, w2) \<and>
       tp_id second = tp_id first \<and> second = first \<and>
       person_table w2 = person_table w1 \<and> attribute_table w2 = attribute_table w1 \<and>
       person_table w1 = person_table example_world @
         [\<lparr>person_id = ''c'', person_environmentId = ''e1'',
           person_createdAt = 10, person_updatedAt = 10\<rparr>] \<and>
       attribute_table w1 = attribute_table example_world @
         [\<lparr>attribute_attributeClassId = ''ac1'', attribute_personId = ''c'',
           attribute_value = ''xyz''\<rparr>] \<and>
       tp_id first = ''c'' \<and>
       tp_attributes first ''userId'' = Some ''xyz'')"
proof -
  let ?c = "\<lparr>attributeClass_id = ''ac1'', attributeClass_name = ''userId'',
           attributeClass_environmentId = ''e1'', attributeClass_archived = False\<rparr>"
  have answers: "store_answers 4 example_world"
    by (simp add: store_answers_def example_world_fields)
  have env: "''e1'' \<in> set (environment_table example_world)"
    by (simp add: example_world_fields)
  have cls: "find (\<lambda>c. attributeClass_environmentId c = ''e1'' \<and> attributeClass_name c = ''userId'')
     (attributeClass_table example_world) = Some ?c"
    by (simp add: example_world_def)
  have ids: "distinct (map attributeClass_id (attributeClass_table example_world))"
    by (simp add: example_world_def)
  have new: "cuid example_world (cuid_counter example_world) = ''c''"
    by (simp add: example_world_def)
  have fresh: "cuid example_world (cuid_counter example_world) \<notin>
      set (map person_id (person_table example_world))"
    by (simp add: example_world_def)
  have nobody: "find (\<lambda>p. person_environmentId p = ''e1'' \<and>
      has_attribute example_world ''userId'' ''xyz'' p) (person_table example_world) = None"
    by (simp add: has_attribute_def example_world_def)
  from getOrCreatePersonByUserId_twice_same_person
    [where w = example_world and environmentId = "''e1''" and c = ?c and userId = "''xyz''"]
    answers env cls ids fresh
  obtain first w1 second w2 where
    r: "getOrCreatePersonByUserId ''xyz'' ''e1'' example_world = (Inr first, w1)"
      "getOrCreatePersonByUserId ''xyz'' ''e1'' w1 = (Inr second, w2)"
      "second = first"
      "person_table w2 = person_table w1" "attribute_table w2 = attribute_table w1"
      "person_table w1 = person_table example_world @
         [\<lparr>person_id = tp_id first, person_environmentId = ''e1'',
           person_createdAt = now example_world, person_updatedAt = now example_world\<rparr>]"
      "attribute_table w1 = attribute_table example_world @
         [\<lparr>attribute_attributeClassId = ''ac1'', attribute_personId = tp_id first,
           attribute_value = ''xyz''\<rparr>]"
      "tp_id first = ''c''"
      "tp_attributes first ''userId'' = Some ''xyz''"
    by (auto simp: nobody new)
  then have "\<exists>first w1 second w2.
       getOrCreatePersonByUserId ''xyz'' ''e1'' example_world = (Inr first, w1) \<and>
       getOrCreatePersonByUserId ''xyz'' ''e1'' w1 = (Inr second, w2) \<and>
       tp_id second = tp_id first \<and> second = first \<and>
       person_table w2 = person_table w1 \<and> attribute_table w2 = attribute_table w1 \<and>
       person_table w1 = person_table example_world @
         [\<lparr>person_id = ''c'', person_environmentId = ''e1'',
           person_createdAt = 10, person_updatedAt = 10\<rparr>] \<and>
       attribute_table w1 = attribute_table example_world @
         [\<lparr>attribute_attributeClassId = ''ac1'', attribute_personId = ''c'',
           attribute_value = ''xyz''\<rparr>] \<and>
       tp_id first = ''c'' \<and>
       tp_attributes first ''userId'' = Some ''xyz''"
    by (intro exI [of _ first] exI [of _ w1] exI [of _ second] exI [of _ w2])
      (simp add: example_world_fields)
  with answers env cls ids new fresh show ?thesis
    by simp
qed

section \<open>Further properties\<close>

text \<open>
  The four operations that validate their identifier do so before anything
  else: a malformed identifier gives the validation error and leaves the world
  as it was, so no collaborator has been called.
\<close>

theorem validation_precedes_every_call:
  "\<not> ZId i \<longrightarrow>
     getPerson ZId i w = (Inl (ValidationError ''Validation failed''), w) \<and>
     getPeople ZId i w = (Inl (ValidationError ''Validation failed''), w) \<and>
     createPerson ZId i w = (Inl (ValidationError ''Validation failed''), w) \<and>
     deletePerson ZId i w = (Inl (ValidationError ''Validation failed''), w)"
  by (simp add: getPerson_def getPeople_def createPerson_def deletePerson_def)

theorem validation_precedes_every_call_witness:
  "\<not> example_ZId ''not an id'' \<and>
   getPerson example_ZId ''not an id'' example_world =
     (Inl (ValidationError ''Validation failed''), example_world) \<and>
   getPeople example_ZId ''not an id'' example_world =
     (Inl (ValidationError ''Validation failed''), example_world) \<and>
   createPerson example_ZId ''not an id'' example_world =
     (Inl (ValidationError ''Validation failed''), example_world) \<and>
   deletePerson example_ZId ''not an id'' example_world =
     (Inl (ValidationError ''Validation failed''), example_world)"
  using validation_precedes_every_call [of example_ZId "''not an id''" example_world]
  by (simp add: example_ZId_ids)

lemma prisma_person_create_bare_answers:
  assumes "store_answers (Suc n) w"
    and "environmentId \<in> set (environment_table w)"
    and "cuid w (cuid_counter w) \<notin> set (map person_id (person_table w))"
  shows "prisma_person_create environmentId [] w =
           (Inr (selectPerson w
                   \<lparr>person_id = cuid w (cuid_counter w),
                    person_environmentId = environmentId,
                    person_createdAt = now w, person_updatedAt = now w\<rparr>),
            (answered (PersonCreate environmentId []) w)
              \<lparr>person_table := person_table w @
                 [\<lparr>person_id = cuid w (cuid_counter w),
                   person_environmentId = environmentId,
                   person_createdAt = now w, person_updatedAt = now w\<rparr>],
               attribute_table := attribute_table w,
               cuid_counter := Suc (cuid_counter w)\<rparr>)"
proof -
  have "selectPerson
      ((answered (PersonCreate environmentId []) w)
         \<lparr>person_table := person_table w @
            [\<lparr>person_id = cuid w (cuid_counter w),
              person_environmentId = environmentId,
              person_createdAt = now w, person_updatedAt = now w\<rparr>],
          attribute_table := attribute_table w,
          cuid_counter := Suc (cuid_counter w)\<rparr>) = selectPerson w"
    by (auto simp: fun_eq_iff intro: selectPerson_tables)
  then show ?thesis
    using assms(2,3) store_call_answers [OF assms(1), of "PersonCreate environmentId []"]
    by (simp add: prisma_person_create_def Let_def)
qed

lemma selectPerson_no_rows:
  assumes "list_all (\<lambda>a. attribute_personId a \<noteq> person_id p) (attribute_table w)"
  shows "tpi_attributes (selectPerson w p) = []"
proof -
  have "list_all (\<lambda>a. f a = None) rows \<Longrightarrow> List.map_filter f rows = []"
    for f :: "Attribute_row \<Rightarrow> PrismaAttribute option" and rows
    by (induction rows) simp_all
  then show ?thesis
    using assms by (simp add: selectPerson_def list_all_iff)
qed

text \<open>
  Round trip. When the store answers, the environment exists, and the
  identifier the store generates is well-formed, unused and not referred to by
  any attribute row, \<open>createPerson\<close> returns a person with that identifier and
  an empty attributes mapping, adds one row for it in the given environment,
  revalidates its tag, and \<open>getPerson\<close> on that identifier afterwards returns the
  same person.
\<close>

theorem createPerson_then_getPerson:
  assumes valid: "ZId environmentId" "ZId (cuid w (cuid_counter w))"
    and answers: "store_answers 2 w"
    and env: "environmentId \<in> set (environment_table w)"
    and fresh: "cuid w (cuid_counter w) \<notin> set (map person_id (person_table w))"
    and unreferenced: "list_all (\<lambda>a. attribute_personId a \<noteq> cuid w (cuid_counter w)) (attribute_table w)"
  shows "\<exists>created w1 w2.
           createPerson ZId environmentId w = (Inr created, w1) \<and>
           tp_id created = cuid w (cuid_counter w) \<and>
           tp_attributes created = Map.empty \<and>
           person_table w1 = person_table w @
             [\<lparr>person_id = tp_id created, person_environmentId = environmentId,
               person_createdAt = now w, person_updatedAt = now w\<rparr>] \<and>
           attribute_table w1 = attribute_table w \<and>
           revalidated w1 = revalidated w @ [tp_id created] \<and>
           getPerson ZId (tp_id created) w1 = (Inr (Some created), w2)"
proof -
  let ?newId = "cuid w (cuid_counter w)"
  let ?newp = "\<lparr>person_id = ?newId, person_environmentId = environmentId,
      person_createdAt = now w, person_updatedAt = now w\<rparr>"
  let ?wd = "(answered (PersonCreate environmentId []) w)
      \<lparr>person_table := person_table w @ [?newp],
       attribute_table := attribute_table w,
       cuid_counter := Suc (cuid_counter w)\<rparr>"
  let ?w1 = "revalidateTag ?newId ?wd"
  let ?created = "transformPrismaPerson (selectPerson w ?newp)"
  have a2: "store_answers (Suc 1) w"
    using answers by (simp add: numeral_2_eq_2)
  have create: "createPerson ZId environmentId w = (Inr ?created, ?w1)"
    using prisma_person_create_bare_answers [OF a2 env fresh] valid(1)
    by (simp add: createPerson_def try_catch_def)
  have a1: "store_answers (Suc 0) ?w1"
    using store_answers_tl [OF a2, of ?w1] by simp
  have empty: "tp_attributes ?created = Map.empty"
    using selectPerson_no_rows [of ?newp w] unreferenced
    by (simp add: transformPrismaPerson_def assign_property_def)
  have "\<forall>p \<in> set (person_table w). person_id p \<noteq> ?newId"
    using fresh by (metis image_eqI set_map)
  then have "find (\<lambda>p. person_id p = ?newId) (person_table w) = None"
    by (simp add: find_None_iff)
  then have found: "find (\<lambda>p. person_id p = ?newId) (person_table ?w1) = Some ?newp"
    by (simp add: find_append_case)
  have sel: "selectPerson ?w1 ?newp = selectPerson w ?newp"
    by (rule selectPerson_tables) simp_all
  have get: "getPerson ZId ?newId ?w1 = (Inr (Some ?created), answered (PersonFindUnique ?newId) ?w1)"
    using getPerson_answers [of ZId ?newId 0 ?w1] valid(2) a1 found by (simp add: sel)
  from create empty get show ?thesis
    by (intro exI [of _ ?created] exI [of _ ?w1] exI [of _ "answered (PersonFindUnique ?newId) ?w1"])
      (simp add: revalidateTag_def)
qed

theorem createPerson_then_getPerson_witness:
  "example_ZId ''e2'' \<and> example_ZId ''c'' \<and> store_answers 2 example_world \<and>
   ''e2'' \<in> set (environment_table example_world) \<and>
   cuid example_world (cuid_counter example_world) = ''c'' \<and>
   ''c'' \<notin> set (map person_id (person_table example_world)) \<and>
   list_all (\<lambda>a. attribute_personId a \<noteq> ''c'') (attribute_table example_world) \<and>
   (\<exists>created w1 w2.
       createPerson example_ZId ''e2'' example_world = (Inr created, w1) \<and>
       tp_id created = ''c'' \<and>
       tp_attributes created = Map.empty \<and>
       person_table w1 = person_table example_world @
         [\<lparr>person_id = ''c'', person_environmentId = ''e2'',
           person_createdAt = 10, person_updatedAt = 10\<rparr>] \<and>
       revalidated w1 = [''c''] \<and>
       getPerson example_ZId ''c'' w1 = (Inr (Some created), w2))"
proof -
  have new: "cuid example_world (cuid_counter example_world) = ''c''"
    by (simp add: example_world_def)
  have valid: "example_ZId ''e2''" "example_ZId (cuid example_world (cuid_counter example_world))"
    by (simp_all add: new example_ZId_def)
  have answers: "store_answers 2 example_world"
    by (simp add: store_answers_def example_world_fields)
  have env: "''e2'' \<in> set (environment_table example_world)"
    by (simp add: example_world_fields)
  have fresh: "cuid example_world (cuid_counter example_world) \<notin>
      set (map person_id (person_table example_world))"
    by (simp add: example_world_def)
  have unreferenced: "list_all (\<lambda>a. attribute_personId a \<noteq>
      cuid example_world (cuid_counter example_world)) (attribute_table example_world)"
    by (simp add: example_world_def)
  from createPerson_then_getPerson
    [where ZId = example_ZId and environmentId = "''e2''" and w = example_world]
    valid answers env fresh unreferenced
  obtain created w1 w2 where
    "createPerson example_ZId ''e2'' example_world = (Inr created, w1)"
    "tp_id created = ''c''" "tp_attributes created = Map.empty"
    "person_table w1 = person_table example_world @
         [\<lparr>person_id = ''c'', person_environmentId = ''e2'',
           person_createdAt = 10, person_updatedAt = 10\<rparr>]"
    "revalidated w1 = [''c'']"
    "getPerson example_ZId ''c'' w1 = (Inr (Some created), w2)"
    using new by (auto simp: example_world_fields)
  then have "\<exists>created w1 w2.
       createPerson example_ZId ''e2'' example_world = (Inr created, w1) \<and>
       tp_id created = ''c'' \<and>
       tp_attributes created = Map.empty \<and>
       person_table w1 = person_table example_world @
         [\<lparr>person_id = ''c'', person_environmentId = ''e2'',
           person_createdAt = 10, person_updatedAt = 10\<rparr>] \<and>
       revalidated w1 = [''c''] \<and>
       getPerson example_ZId ''c'' w1 = (Inr (Some created), w2)"
    by blast
  with valid answers env new fresh unreferenced show ?thesis
    by simp
qed

end
